theory Spec2Isabelle
  imports Complex_Main "HOL-Library.Word" "HOL-Library.Stream"
begin

section \<open>The KVDB benchmark harness (benchmark.py)\<close>

text \<open>
  The harness is a single Python script: two helpers (\<open>generate_random_vector\<close>,
  \<open>format_vector\<close>) and \<open>main\<close>, which talks to the outside world through
  \<open>print\<close>, \<open>time.time\<close>, \<open>numpy.random.randn\<close>, \<open>subprocess.run\<close> and
  \<open>subprocess.Popen\<close>. The model threads an explicit state through \<open>main\<close>:
  what the outside world will answer (random samples, clock readings, child
  processes) and what the script has done so far (lines printed, processes
  invoked). Every \<open>sys.exit\<close> and every exception that can leave \<open>main\<close> is a
  value of type \<open>py_exit\<close>.
\<close>

subsection \<open>Data\<close>

text \<open>
  Vector components are never computed with, only carried and rendered, so a
  float32 is its 32-bit pattern and a float64 sample its 64-bit pattern. Wall
  clock times are subtracted and divided; they are modelled as real numbers.
\<close>

type_synonym float32 = "32 word"
type_synonym float64 = "64 word"
type_synonym vector = "float32 list"

text \<open>The part of numpy the script relies on: \<open>ndarray.astype(np.float32)\<close> on one
  component and \<open>str\<close> of a float32 scalar.\<close>

record numpy =
  astype_float32 :: "float64 \<Rightarrow> float32"
  str_float32 :: "float32 \<Rightarrow> string"

text \<open>The module-level configuration constants (lines 18-20).\<close>

record config =
  NUM_VECTORS :: nat
  DIMENSION :: nat
  BINARY_PATH :: string

definition module_config :: config where
  "module_config =
     \<lparr>NUM_VECTORS = 100000, DIMENSION = 786, BINARY_PATH = ''./target/release/kvdb''\<rparr>"

text \<open>
  A printed line is the list of the pieces of its f-string: literal text, text
  captured from a child process, an integer (\<open>{n}\<close>), an integer with thousands
  separators (\<open>{n:,}\<close>), or a number in fixed notation with the given number of
  decimals (\<open>{x:.3f}\<close>).
\<close>

datatype piece =
    Lit string
  | Captured string
  | IntD nat
  | IntComma nat
  | Fixed nat real

type_synonym line = "piece list"

text \<open>A child process either cannot be started, or completes with a return code,
  its standard output and its standard error, or completes with a return code
  and output that is not valid text in the locale's encoding. The last case
  matters where the script asks for text: \<open>Popen(..., text=True)\<close> makes
  \<open>communicate\<close> decode what it captured and raise \<open>UnicodeDecodeError\<close> when
  that fails, while \<open>subprocess.run(..., capture_output=True)\<close> keeps bytes and
  only looks at the return code. In \<open>Completed\<close> the two strings are the
  decoded texts.\<close>

datatype proc_outcome =
    NotFound
  | Completed int string string
  | Undecodable int

record invocation =
  argv :: "string list"
  stdin_text :: "string option"

datatype py_exception = FileNotFoundError | ZeroDivisionError | UnicodeDecodeError

datatype py_exit =
    Returned
  | SysExit int
  | Uncaught py_exception

fun exit_status :: "py_exit \<Rightarrow> int" where
  "exit_status Returned = 0"
| "exit_status (SysExit n) = n"
| "exit_status (Uncaught e) = 1"

text \<open>The answers of the outside world: the samples \<open>randn\<close> will return, the
  readings \<open>time.time()\<close> will return, and what the \<open>k\<close>-th process started
  does, given its argument vector and the text written to its standard input.\<close>

record environment =
  randn_samples :: "float64 stream"
  clock_readings :: "real stream"
  os_exec :: "nat \<Rightarrow> string list \<Rightarrow> string option \<Rightarrow> proc_outcome"

record state =
  rng :: "float64 stream"
  clk :: "real stream"
  exec :: "nat \<Rightarrow> string list \<Rightarrow> string option \<Rightarrow> proc_outcome"
  invocations :: "invocation list"
  printed :: "line list"

definition init_state :: "environment \<Rightarrow> state" where
  "init_state env =
     \<lparr>rng = randn_samples env, clk = clock_readings env, exec = os_exec env,
      invocations = [], printed = []\<rparr>"

subsection \<open>Primitives\<close>

definition print :: "line \<Rightarrow> state \<Rightarrow> state" where
  "print l w = w\<lparr>printed := printed w @ [l]\<rparr>"

definition time_time :: "state \<Rightarrow> real \<times> state" where
  "time_time w = (shd (clk w), w\<lparr>clk := stl (clk w)\<rparr>)"

definition randn :: "nat \<Rightarrow> state \<Rightarrow> float64 list \<times> state" where
  "randn dimen w = (stake dimen (rng w), w\<lparr>rng := sdrop dimen (rng w)\<rparr>)"

text \<open>Starting a process records the invocation that is attempted, with the text
  prepared for its standard input, and asks the environment for its outcome. \<open>subprocess.run\<close> leaves the standard input alone; \<open>Popen\<close> followed by
  \<open>communicate(text)\<close> writes \<open>text\<close> to it.\<close>

definition spawn :: "string list \<Rightarrow> string option \<Rightarrow> state \<Rightarrow> proc_outcome \<times> state" where
  "spawn args inp w =
     (exec w (length (invocations w)) args inp,
      w\<lparr>invocations := invocations w @ [\<lparr>argv = args, stdin_text = inp\<rparr>]\<rparr>)"

definition truediv :: "real \<Rightarrow> real \<Rightarrow> py_exception + real" where
  "truediv a b = (if b = 0 then Inl ZeroDivisionError else Inr (a / b))"

text \<open>\<open>str\<close> of a non-negative Python integer: its decimal digits.\<close>

definition digit_char :: "nat \<Rightarrow> char" where
  "digit_char d = ''0123456789'' ! d"

fun str_nat :: "nat \<Rightarrow> string" where
  "str_nat n = (if n < 10 then [digit_char n] else str_nat (n div 10) @ [digit_char (n mod 10)])"

declare str_nat.simps [simp del]

text \<open>\<open>sep.join(xs)\<close>.\<close>

fun join :: "string \<Rightarrow> string list \<Rightarrow> string" where
  "join sep [] = []"
| "join sep [x] = x"
| "join sep (x # y # ys) = x @ sep @ join sep (y # ys)"

definition newline :: char where
  "newline = CHR 0x0A"

subsection \<open>The helpers (lines 22-28)\<close>

definition generate_random_vector :: "numpy \<Rightarrow> nat \<Rightarrow> state \<Rightarrow> vector \<times> state" where
  "generate_random_vector np dimen w =
     (let (samples, w') = randn dimen w in (map (astype_float32 np) samples, w'))"

definition format_vector :: "numpy \<Rightarrow> vector \<Rightarrow> string" where
  "format_vector np vec = join '' '' (map (str_float32 np) vec)"

subsection \<open>The command lines built in \<open>main\<close> (lines 59, 91, 94, 61, 96)\<close>

definition insert_cmd :: "numpy \<Rightarrow> string \<Rightarrow> vector \<Rightarrow> string" where
  "insert_cmd np vec_id vec = ''insert '' @ vec_id @ '' '' @ format_vector np vec @ [newline]"

definition search_cmd :: "numpy \<Rightarrow> vector \<Rightarrow> string" where
  "search_cmd np query_vec = ''search '' @ format_vector np query_vec @ '' --k_top 10'' @ [newline]"

definition exit_cmd :: string where
  "exit_cmd = ''exit'' @ [newline]"

text \<open>The key \<open>f"vec_{i}"\<close> (line 51).\<close>

definition vec_key :: "nat \<Rightarrow> string" where
  "vec_key i = ''vec_'' @ str_nat i"

subsection \<open>The loops of \<open>main\<close>\<close>

text \<open>Lines 48-51: one vector and one key for each \<open>i\<close> of \<open>range(NUM_VECTORS)\<close>,
  appended to \<open>vectors\<close>.\<close>

fun generate_vectors ::
  "numpy \<Rightarrow> nat \<Rightarrow> nat list \<Rightarrow> (string \<times> vector) list \<Rightarrow> state \<Rightarrow> (string \<times> vector) list \<times> state"
where
  "generate_vectors np dimen [] vectors w = (vectors, w)"
| "generate_vectors np dimen (i # rest) vectors w =
     (let (vec, w') = generate_random_vector np dimen w
      in generate_vectors np dimen rest (vectors @ [(vec_key i, vec)]) w')"

text \<open>Line 86: the list comprehension over \<open>range(100)\<close>.\<close>

fun generate_queries ::
  "numpy \<Rightarrow> nat \<Rightarrow> nat list \<Rightarrow> vector list \<Rightarrow> state \<Rightarrow> vector list \<times> state"
where
  "generate_queries np dimen [] query_vectors w = (query_vectors, w)"
| "generate_queries np dimen (i # rest) query_vectors w =
     (let (vec, w') = generate_random_vector np dimen w
      in generate_queries np dimen rest (query_vectors @ [vec]) w')"

text \<open>Lines 57-61: the phase-1 command list.\<close>

definition phase1_commands :: "numpy \<Rightarrow> (string \<times> vector) list \<Rightarrow> string list" where
  "phase1_commands np vectors =
     (let insert_commands =
            foldl (\<lambda>cmds (vec_id, vec). cmds @ [insert_cmd np vec_id vec]) [] vectors
      in insert_commands @ [exit_cmd])"

text \<open>Lines 89-96: the phase-2 command list.\<close>

definition phase2_commands ::
  "numpy \<Rightarrow> (string \<times> vector) list \<Rightarrow> vector list \<Rightarrow> string list" where
  "phase2_commands np vectors query_vectors =
     (let all_commands =
            foldl (\<lambda>cmds (vec_id, vec). cmds @ [insert_cmd np vec_id vec]) [] vectors;
          all_commands =
            foldl (\<lambda>cmds query_vec. cmds @ [search_cmd np query_vec]) all_commands query_vectors
      in all_commands @ [exit_cmd])"

subsection \<open>The blocks of \<open>main\<close>\<close>

text \<open>A run of consecutive \<open>print\<close> calls.\<close>

definition prints :: "line list \<Rightarrow> state \<Rightarrow> state" where
  "prints ls w = foldl (\<lambda>w' l. print l w') w ls"

definition rule60 :: line where
  "rule60 = [Lit (replicate 60 CHR ''='')]"

text \<open>Lines 31-36.\<close>

definition banner_lines :: "config \<Rightarrow> line list" where
  "banner_lines cfg =
     [rule60,
      [Lit ''KVDB Benchmark''],
      rule60,
      [Lit ''Number of vectors: '', IntD (NUM_VECTORS cfg)],
      [Lit ''Vector dimension: '', IntD (DIMENSION cfg)],
      []]"

text \<open>Lines 38-44: \<open>subprocess.run([BINARY_PATH, "count"], capture_output=True,
  check=True)\<close> raises \<open>FileNotFoundError\<close> when the binary cannot be started and
  \<open>CalledProcessError\<close> when it returns a non-zero code; both are caught by the
  same handler. The output is captured as bytes and never decoded. The result
  is \<open>Some\<close> exit when the script stops here.\<close>

definition preflight_error_lines :: "config \<Rightarrow> line list" where
  "preflight_error_lines cfg =
     [[Lit ''Error: Could not find binary at '', Lit (BINARY_PATH cfg)],
      [Lit ''Please build the project first: cargo build --release'']]"

definition preflight :: "config \<Rightarrow> state \<Rightarrow> py_exit option \<times> state" where
  "preflight cfg w =
     (let (res, w1) = spawn [BINARY_PATH cfg, ''count''] None w
      in case res of
           NotFound \<Rightarrow> (Some (SysExit 1), prints (preflight_error_lines cfg) w1)
         | Completed returncode out err \<Rightarrow>
             if returncode \<noteq> 0
             then (Some (SysExit 1), prints (preflight_error_lines cfg) w1)
             else (None, w1)
         | Undecodable returncode \<Rightarrow>
             if returncode \<noteq> 0
             then (Some (SysExit 1), prints (preflight_error_lines cfg) w1)
             else (None, w1))"

text \<open>Lines 46-53.\<close>

definition generate_all :: "config \<Rightarrow> numpy \<Rightarrow> state \<Rightarrow> (string \<times> vector) list \<times> state" where
  "generate_all cfg np w =
     (let w1 = print [Lit ''Generating random vectors...''] w;
          (vectors, w2) = generate_vectors np (DIMENSION cfg) [0..<NUM_VECTORS cfg] [] w1;
          w3 = prints [[Lit ''Generated '', IntD (length vectors), Lit '' random vectors''], []] w2
      in (vectors, w3))"

text \<open>Lines 55-81. The result is \<open>Inr insert_time\<close> when the script goes on.
  \<open>Popen\<close> raises \<open>FileNotFoundError\<close> when the binary cannot be started, and
  \<open>communicate\<close> on line 71 raises \<open>UnicodeDecodeError\<close> when the captured
  output cannot be decoded; neither is caught, and the second clock reading is
  not taken. \<open>NUM_VECTORS / insert_time\<close> on line 80 raises \<open>ZeroDivisionError\<close>
  when the two clock readings are equal.\<close>

definition phase1 ::
  "config \<Rightarrow> numpy \<Rightarrow> (string \<times> vector) list \<Rightarrow> state \<Rightarrow> (py_exit + real) \<times> state" where
  "phase1 cfg np vectors w =
     (let w1 = print [Lit ''Phase 1: Benchmarking insertions...''] w;
          insert_commands = phase1_commands np vectors;
          (start_insert, w2) = time_time w1;
          (res, w3) = spawn [BINARY_PATH cfg] (Some (join [] insert_commands)) w2
      in case res of
           NotFound \<Rightarrow> (Inl (Uncaught FileNotFoundError), w3)
         | Undecodable returncode \<Rightarrow> (Inl (Uncaught UnicodeDecodeError), w3)
         | Completed returncode stdout_insert stderr_insert \<Rightarrow>
             let (t, w4) = time_time w3;
                 insert_time = t - start_insert
             in if returncode \<noteq> 0
                then (Inl (SysExit 1),
                      prints [[Lit ''Error during insertion:''], [Captured stderr_insert]] w4)
                else
                  let w5 = print [Lit ''  Inserted '', IntD (NUM_VECTORS cfg), Lit '' vectors in '',
                                  Fixed 3 insert_time, Lit '' seconds''] w4
                  in (case truediv (real (NUM_VECTORS cfg)) insert_time of
                        Inl e \<Rightarrow> (Inl (Uncaught e), w5)
                      | Inr throughput \<Rightarrow>
                          (Inr insert_time,
                           prints [[Lit ''  Throughput: '', Fixed 2 throughput, Lit '' inserts/sec''],
                                   []] w5)))"

text \<open>Lines 83-113. The result is \<open>Inr total_time\<close> when the script goes on;
  \<open>Popen\<close> and \<open>communicate\<close> (line 107) raise as in phase 1.\<close>

definition phase2 ::
  "config \<Rightarrow> numpy \<Rightarrow> (string \<times> vector) list \<Rightarrow> state \<Rightarrow> (py_exit + real) \<times> state" where
  "phase2 cfg np vectors w =
     (let w1 = prints [[Lit ''Phase 2: Benchmarking 100 random searches...''],
                       [Lit ''  Generating query vectors...'']] w;
          (query_vectors, w2) = generate_queries np (DIMENSION cfg) [0..<100] [] w1;
          all_commands = phase2_commands np vectors query_vectors;
          (start_total, w3) = time_time w2;
          (res, w4) = spawn [BINARY_PATH cfg] (Some (join [] all_commands)) w3
      in case res of
           NotFound \<Rightarrow> (Inl (Uncaught FileNotFoundError), w4)
         | Undecodable returncode \<Rightarrow> (Inl (Uncaught UnicodeDecodeError), w4)
         | Completed returncode out err \<Rightarrow>
             let (t, w5) = time_time w4;
                 total_time = t - start_total
             in if returncode \<noteq> 0
                then (Inl (SysExit 1),
                      prints [[Lit ''Error during search benchmark:''], [Captured err]] w5)
                else (Inr total_time, w5))"

text \<open>Lines 116-117.\<close>

definition derived_metrics :: "real \<Rightarrow> real \<Rightarrow> real \<times> real" where
  "derived_metrics insert_time total_time =
     (let search_time = total_time - insert_time;
          avg_search_time = search_time / 100
      in (search_time, avg_search_time))"

text \<open>Lines 119-122. \<open>100 / search_time\<close> raises \<open>ZeroDivisionError\<close> when the
  two phases took equally long.\<close>

definition report_search :: "real \<Rightarrow> real \<Rightarrow> state \<Rightarrow> py_exit option \<times> state" where
  "report_search search_time avg_search_time w =
     (let w1 = prints [[Lit ''  Completed 100 searches in '', Fixed 3 search_time, Lit '' seconds''],
                       [Lit ''  Average search time: '', Fixed 3 (avg_search_time * 1000), Lit '' ms'']] w
      in case truediv 100 search_time of
           Inl e \<Rightarrow> (Some (Uncaught e), w1)
         | Inr throughput \<Rightarrow>
             (None, prints [[Lit ''  Search throughput: '', Fixed 2 throughput, Lit '' searches/sec''],
                            []] w1))"

text \<open>Lines 124-142. \<open>insert_time / NUM_VECTORS\<close> on line 134 raises
  \<open>ZeroDivisionError\<close> when no vector is configured.\<close>

definition summary ::
  "config \<Rightarrow> real \<Rightarrow> real \<Rightarrow> real \<Rightarrow> real \<Rightarrow> state \<Rightarrow> py_exit \<times> state" where
  "summary cfg insert_time total_time search_time avg_search_time w =
     (let w1 = prints [rule60,
                       [Lit ''Benchmark Summary''],
                       rule60,
                       [Lit ''Database size: '', IntComma (NUM_VECTORS cfg), Lit '' vectors''],
                       [Lit ''Vector dimension: '', IntD (DIMENSION cfg)],
                       [],
                       [Lit ''Insertion Performance:''],
                       [Lit ''  Total time: '', Fixed 3 insert_time, Lit '' seconds'']] w
      in case truediv (real (NUM_VECTORS cfg)) insert_time of
           Inl e \<Rightarrow> (Uncaught e, w1)
         | Inr insert_throughput \<Rightarrow>
             let w2 = print [Lit ''  Throughput: '', Fixed 2 insert_throughput, Lit '' inserts/sec''] w1
             in (case truediv insert_time (real (NUM_VECTORS cfg)) of
                  Inl e \<Rightarrow> (Uncaught e, w2)
                | Inr per_insert \<Rightarrow>
                    let w3 = prints [[Lit ''  Average per insert: '', Fixed 3 (per_insert * 1000), Lit '' ms''],
                                     [],
                                     [Lit ''Search Performance (100 random searches):''],
                                     [Lit ''  Total time: '', Fixed 3 search_time, Lit '' seconds''],
                                     [Lit ''  Average per search: '', Fixed 3 (avg_search_time * 1000),
                                      Lit '' ms'']] w2
                    in (case truediv 100 search_time of
                          Inl e \<Rightarrow> (Uncaught e, w3)
                        | Inr search_throughput \<Rightarrow>
                            (Returned,
                             prints [[Lit ''  Throughput: '', Fixed 2 search_throughput,
                                      Lit '' searches/sec''],
                                     [],
                                     [Lit ''Total benchmark time: '', Fixed 3 total_time, Lit '' seconds''],
                                     rule60] w3))))"

subsection \<open>\<open>main\<close> (lines 30-142)\<close>

definition main :: "config \<Rightarrow> numpy \<Rightarrow> environment \<Rightarrow> py_exit \<times> state" where
  "main cfg np env =
     (let w0 = prints (banner_lines cfg) (init_state env)
      in case preflight cfg w0 of
           (Some stop, w1) \<Rightarrow> (stop, w1)
         | (None, w1) \<Rightarrow>
             let (vectors, w2) = generate_all cfg np w1
             in (case phase1 cfg np vectors w2 of
                  (Inl stop, w3) \<Rightarrow> (stop, w3)
                | (Inr insert_time, w3) \<Rightarrow>
                    (case phase2 cfg np vectors w3 of
                       (Inl stop, w4) \<Rightarrow> (stop, w4)
                     | (Inr total_time, w4) \<Rightarrow>
                         let (search_time, avg_search_time) = derived_metrics insert_time total_time
                         in (case report_search search_time avg_search_time w4 of
                               (Some stop, w5) \<Rightarrow> (stop, w5)
                             | (None, w5) \<Rightarrow>
                                 summary cfg insert_time total_time search_time avg_search_time w5))))"

subsection \<open>Observations of a run\<close>

text \<open>What a run draws from its environment and what it is expected to send and
  print, stated directly on the environment; the lemmas below connect them to \<open>main\<close>.\<close>

definition sample_block :: "numpy \<Rightarrow> nat \<Rightarrow> float64 stream \<Rightarrow> nat \<Rightarrow> vector" where
  "sample_block np d s k = map (astype_float32 np) (stake d (sdrop (k * d) s))"

definition drawn_vectors :: "config \<Rightarrow> numpy \<Rightarrow> float64 stream \<Rightarrow> (string \<times> vector) list" where
  "drawn_vectors cfg np s =
     map (\<lambda>i. (vec_key i, sample_block np (DIMENSION cfg) s i)) [0..<NUM_VECTORS cfg]"

definition drawn_queries :: "config \<Rightarrow> numpy \<Rightarrow> float64 stream \<Rightarrow> vector list" where
  "drawn_queries cfg np s =
     map (\<lambda>j. sample_block np (DIMENSION cfg) (sdrop (NUM_VECTORS cfg * DIMENSION cfg) s) j) [0..<100]"

text \<open>\<open>returned_zero\<close>: the process ran and its return code is 0, which is all
  the pre-flight check asks. \<open>succeeded\<close>: moreover its output is text, which is
  what a phase needs to go on. \<open>undecodable\<close>: the process ran and its output is
  not text.\<close>

fun returned_zero :: "proc_outcome \<Rightarrow> bool" where
  "returned_zero NotFound = False"
| "returned_zero (Completed returncode out err) = (returncode = 0)"
| "returned_zero (Undecodable returncode) = (returncode = 0)"

fun succeeded :: "proc_outcome \<Rightarrow> bool" where
  "succeeded NotFound = False"
| "succeeded (Completed returncode out err) = (returncode = 0)"
| "succeeded (Undecodable returncode) = False"

fun undecodable :: "proc_outcome \<Rightarrow> bool" where
  "undecodable NotFound = False"
| "undecodable (Completed returncode out err) = False"
| "undecodable (Undecodable returncode) = True"

definition phase1_stdin :: "config \<Rightarrow> numpy \<Rightarrow> environment \<Rightarrow> string" where
  "phase1_stdin cfg np env = join [] (phase1_commands np (drawn_vectors cfg np (randn_samples env)))"

definition phase2_stdin :: "config \<Rightarrow> numpy \<Rightarrow> environment \<Rightarrow> string" where
  "phase2_stdin cfg np env =
     join [] (phase2_commands np (drawn_vectors cfg np (randn_samples env))
                (drawn_queries cfg np (randn_samples env)))"

definition preflight_outcome :: "config \<Rightarrow> environment \<Rightarrow> proc_outcome" where
  "preflight_outcome cfg env = os_exec env 0 [BINARY_PATH cfg, ''count''] None"

definition phase1_outcome :: "config \<Rightarrow> numpy \<Rightarrow> environment \<Rightarrow> proc_outcome" where
  "phase1_outcome cfg np env = os_exec env 1 [BINARY_PATH cfg] (Some (phase1_stdin cfg np env))"

definition phase2_outcome :: "config \<Rightarrow> numpy \<Rightarrow> environment \<Rightarrow> proc_outcome" where
  "phase2_outcome cfg np env = os_exec env 2 [BINARY_PATH cfg] (Some (phase2_stdin cfg np env))"

definition insert_time_of :: "environment \<Rightarrow> real" where
  "insert_time_of env = shd (stl (clock_readings env)) - shd (clock_readings env)"

definition total_time_of :: "environment \<Rightarrow> real" where
  "total_time_of env =
     shd (stl (stl (stl (clock_readings env)))) - shd (stl (stl (clock_readings env)))"

definition preflight_invocation :: "config \<Rightarrow> invocation" where
  "preflight_invocation cfg = \<lparr>argv = [BINARY_PATH cfg, ''count''], stdin_text = None\<rparr>"

definition phase1_invocation :: "config \<Rightarrow> numpy \<Rightarrow> environment \<Rightarrow> invocation" where
  "phase1_invocation cfg np env =
     \<lparr>argv = [BINARY_PATH cfg], stdin_text = Some (phase1_stdin cfg np env)\<rparr>"

definition phase2_invocation :: "config \<Rightarrow> numpy \<Rightarrow> environment \<Rightarrow> invocation" where
  "phase2_invocation cfg np env =
     \<lparr>argv = [BINARY_PATH cfg], stdin_text = Some (phase2_stdin cfg np env)\<rparr>"

fun stderr_of :: "proc_outcome \<Rightarrow> string" where
  "stderr_of NotFound = []"
| "stderr_of (Completed returncode out err) = err"
| "stderr_of (Undecodable returncode) = []"

definition generation_lines :: "config \<Rightarrow> line list" where
  "generation_lines cfg =
     [[Lit ''Generating random vectors...''],
      [Lit ''Generated '', IntD (NUM_VECTORS cfg), Lit '' random vectors''],
      []]"

definition phase1_report_lines :: "config \<Rightarrow> real \<Rightarrow> line list" where
  "phase1_report_lines cfg insert_time =
     [[Lit ''  Inserted '', IntD (NUM_VECTORS cfg), Lit '' vectors in '', Fixed 3 insert_time,
       Lit '' seconds''],
      [Lit ''  Throughput: '', Fixed 2 (real (NUM_VECTORS cfg) / insert_time), Lit '' inserts/sec''],
      []]"

definition phase2_header_lines :: "line list" where
  "phase2_header_lines =
     [[Lit ''Phase 2: Benchmarking 100 random searches...''],
      [Lit ''  Generating query vectors...'']]"

definition search_report_lines :: "real \<Rightarrow> real \<Rightarrow> line list" where
  "search_report_lines insert_time total_time =
     [[Lit ''  Completed 100 searches in '', Fixed 3 (total_time - insert_time), Lit '' seconds''],
      [Lit ''  Average search time: '', Fixed 3 ((total_time - insert_time) / 100 * 1000), Lit '' ms''],
      [Lit ''  Search throughput: '', Fixed 2 (100 / (total_time - insert_time)), Lit '' searches/sec''],
      []]"

definition summary_lines :: "config \<Rightarrow> real \<Rightarrow> real \<Rightarrow> line list" where
  "summary_lines cfg insert_time total_time =
     [rule60,
      [Lit ''Benchmark Summary''],
      rule60,
      [Lit ''Database size: '', IntComma (NUM_VECTORS cfg), Lit '' vectors''],
      [Lit ''Vector dimension: '', IntD (DIMENSION cfg)],
      [],
      [Lit ''Insertion Performance:''],
      [Lit ''  Total time: '', Fixed 3 insert_time, Lit '' seconds''],
      [Lit ''  Throughput: '', Fixed 2 (real (NUM_VECTORS cfg) / insert_time), Lit '' inserts/sec''],
      [Lit ''  Average per insert: '', Fixed 3 (insert_time / real (NUM_VECTORS cfg) * 1000), Lit '' ms''],
      [],
      [Lit ''Search Performance (100 random searches):''],
      [Lit ''  Total time: '', Fixed 3 (total_time - insert_time), Lit '' seconds''],
      [Lit ''  Average per search: '', Fixed 3 ((total_time - insert_time) / 100 * 1000), Lit '' ms''],
      [Lit ''  Throughput: '', Fixed 2 (100 / (total_time - insert_time)), Lit '' searches/sec''],
      [],
      [Lit ''Total benchmark time: '', Fixed 3 total_time, Lit '' seconds''],
      rule60]"

subsection \<open>A small concrete run\<close>

text \<open>A numpy stand-in that knows three float64 samples (1.0, -0.5, 2.5), their
  float32 casts and the strings numpy prints for them; a configuration with two
  vectors of dimension two; and a source of samples.\<close>

definition demo_np :: numpy where
  "demo_np =
     \<lparr>astype_float32 = (\<lambda>x. if x = 0x3FF0000000000000 then 0x3F800000
                             else if x = 0xBFE0000000000000 then 0xBF000000
                             else if x = 0x4004000000000000 then 0x40200000
                             else 0),
      str_float32 = (\<lambda>x. if x = 0x3F800000 then ''1.0''
                          else if x = 0xBF000000 then ''-0.5''
                          else if x = 0x40200000 then ''2.5''
                          else ''0.0'')\<rparr>"

definition demo_cfg :: config where
  "demo_cfg = \<lparr>NUM_VECTORS = 2, DIMENSION = 2, BINARY_PATH = ''./kvdb''\<rparr>"

definition demo_samples :: "float64 stream" where
  "demo_samples =
     [0x3FF0000000000000, 0xBFE0000000000000, 0x4004000000000000, 0x3FF0000000000000] @- sconst 0"

definition demo_state :: state where
  "demo_state =
     \<lparr>rng = demo_samples, clk = sconst 0, exec = (\<lambda>k args inp. NotFound),
      invocations = [], printed = []\<rparr>"

text \<open>Environments over the same samples. The clock reads 100, 102, 110
  and 115, so phase 1 takes 2 seconds and phase 2 takes 5. In the first every
  process succeeds; in the second the binary cannot be started; in the third
  the phase-1 process and in the fourth the phase-2 process returns code 2.
  Two more have the phase-1 and the phase-2 process return code 2 with output
  that is not text.\<close>

definition demo_clock :: "real stream" where
  "demo_clock = [100, 102, 110, 115] @- sconst 0"

definition demo_env :: environment where
  "demo_env =
     \<lparr>randn_samples = demo_samples, clock_readings = demo_clock,
      os_exec = (\<lambda>k args inp. Completed 0 [] [])\<rparr>"

definition demo_env_no_binary :: environment where
  "demo_env_no_binary =
     \<lparr>randn_samples = demo_samples, clock_readings = demo_clock,
      os_exec = (\<lambda>k args inp. NotFound)\<rparr>"

definition demo_env_phase1_fails :: environment where
  "demo_env_phase1_fails =
     \<lparr>randn_samples = demo_samples, clock_readings = demo_clock,
      os_exec = (\<lambda>k args inp. if k = 1 then Completed 2 [] ''dimension mismatch''
                                else Completed 0 [] [])\<rparr>"

definition demo_env_phase1_undecodable :: environment where
  "demo_env_phase1_undecodable =
     \<lparr>randn_samples = demo_samples, clock_readings = demo_clock,
      os_exec = (\<lambda>k args inp. if k = 1 then Undecodable 2 else Completed 0 [] [])\<rparr>"

definition demo_env_phase2_undecodable :: environment where
  "demo_env_phase2_undecodable =
     \<lparr>randn_samples = demo_samples, clock_readings = demo_clock,
      os_exec = (\<lambda>k args inp. if k = 2 then Undecodable 2 else Completed 0 [] [])\<rparr>"

definition demo_env_phase2_fails :: environment where
  "demo_env_phase2_fails =
     \<lparr>randn_samples = demo_samples, clock_readings = demo_clock,
      os_exec = (\<lambda>k args inp. if k = 2 then Completed 2 [] ''index is empty''
                                else Completed 0 [] [])\<rparr>"

subsection \<open>The workload of a run, line by line\<close>

text \<open>The insert lines and the search lines a run encodes, in order.\<close>

definition insert_lines :: "config \<Rightarrow> numpy \<Rightarrow> environment \<Rightarrow> string list" where
  "insert_lines cfg np env =
     map (\<lambda>(vec_id, vec). insert_cmd np vec_id vec) (drawn_vectors cfg np (randn_samples env))"

definition search_lines :: "config \<Rightarrow> numpy \<Rightarrow> environment \<Rightarrow> string list" where
  "search_lines cfg np env = map (search_cmd np) (drawn_queries cfg np (randn_samples env))"

text \<open>Whitespace in the sense of Python's \<open>str.isspace\<close> on ASCII: space, tab,
  line feed, vertical tab, form feed, carriage return, and the four separator
  control characters.\<close>

definition is_space :: "char \<Rightarrow> bool" where
  "is_space c \<longleftrightarrow>
     c \<in> set [CHR '' '', CHR 0x09, CHR 0x0A, CHR 0x0B, CHR 0x0C, CHR 0x0D,
               CHR 0x1C, CHR 0x1D, CHR 0x1E, CHR 0x1F]"

definition whitespace_free :: "string \<Rightarrow> bool" where
  "whitespace_free s \<longleftrightarrow> list_all (\<lambda>c. \<not> is_space c) s"

text \<open>The number a string of decimal digits denotes.\<close>

definition digit_value :: "char \<Rightarrow> nat" where
  "digit_value c = of_char c - 48"

definition decimal_value :: "string \<Rightarrow> nat" where
  "decimal_value s = foldl (\<lambda>acc c. 10 * acc + digit_value c) 0 s"

subsection \<open>Splitting a line into fields\<close>

text \<open>
  \<open>split_on\<close> is Python's \<open>s.split(sep)\<close> for a one-character separator: it
  keeps empty fields and always returns at least one field. It is how a reader
  of the protocol takes a line \<open>insert <key> <f1> ... <fn>\<close> apart.
\<close>

fun split_on :: "char \<Rightarrow> string \<Rightarrow> string list" where
  "split_on sep [] = [[]]"
| "split_on sep (c # cs) =
     (if c = sep then [] # split_on sep cs
      else (case split_on sep cs of
              [] \<Rightarrow> [[c]]
            | fld # flds \<Rightarrow> (c # fld) # flds))"

section \<open>Properties\<close>

subsection \<open>Symbolic execution of the blocks\<close>

lemma prints_eq: "prints ls w = w\<lparr>printed := printed w @ ls\<rparr>"
  unfolding prints_def
  by (induction ls arbitrary: w) (simp_all add: print_def)

lemma foldl_append_map: "foldl (\<lambda>cmds x. cmds @ [f x]) acc xs = acc @ map f xs"
  by (induction xs arbitrary: acc) simp_all

lemma join_Nil_concat: "join [] xs = concat xs"
  by (induction xs rule: induct_list012) simp_all

lemma sample_block_shift:
  "Suc m \<le> i \<Longrightarrow> sample_block np d (sdrop d s) (i - Suc m) = sample_block np d s (i - m)"
proof -
  assume "Suc m \<le> i"
  then have "d + (i - Suc m) * d = (i - m) * d"
    by (metis Suc_diff_Suc Suc_le_lessD mult_Suc)
  then show ?thesis by (simp add: sample_block_def)
qed

lemma generate_vectors_upt:
  "generate_vectors np d [m..<n] acc w =
     (acc @ map (\<lambda>i. (vec_key i, sample_block np d (rng w) (i - m))) [m..<n],
      w\<lparr>rng := sdrop ((n - m) * d) (rng w)\<rparr>)"
proof (induction "n - m" arbitrary: m acc w)
  case 0
  then show ?case by simp
next
  case (Suc k)
  then have lt: "m < n" and k: "k = n - Suc m" by linarith+
  have blk: "map (\<lambda>i. (vec_key i, sample_block np d (sdrop d (rng w)) (i - Suc m))) [Suc m..<n]
           = map (\<lambda>i. (vec_key i, sample_block np d (rng w) (i - m))) [Suc m..<n]"
    by (rule map_cong) (simp_all add: sample_block_shift)
  have len: "d + (n - Suc m) * d = (n - m) * d"
    using lt by (metis Suc_diff_Suc mult_Suc)
  have "generate_vectors np d [m..<n] acc w =
        generate_vectors np d [Suc m..<n] (acc @ [(vec_key m, sample_block np d (rng w) 0)])
          (w\<lparr>rng := sdrop d (rng w)\<rparr>)"
    using lt by (simp add: upt_conv_Cons generate_random_vector_def randn_def sample_block_def)
  also have "\<dots> =
        ((acc @ [(vec_key m, sample_block np d (rng w) 0)]) @
           map (\<lambda>i. (vec_key i, sample_block np d (sdrop d (rng w)) (i - Suc m))) [Suc m..<n],
         w\<lparr>rng := sdrop ((n - Suc m) * d) (sdrop d (rng w))\<rparr>)"
    using Suc.hyps(1)[OF k] by simp
  also have "\<dots> =
        (acc @ map (\<lambda>i. (vec_key i, sample_block np d (rng w) (i - m))) [m..<n],
         w\<lparr>rng := sdrop ((n - m) * d) (rng w)\<rparr>)"
    using lt by (simp add: blk len upt_conv_Cons)
  finally show ?case .
qed

lemma generate_queries_upt:
  "generate_queries np d [m..<n] acc w =
     (acc @ map (\<lambda>i. sample_block np d (rng w) (i - m)) [m..<n],
      w\<lparr>rng := sdrop ((n - m) * d) (rng w)\<rparr>)"
proof (induction "n - m" arbitrary: m acc w)
  case 0
  then show ?case by simp
next
  case (Suc k)
  then have lt: "m < n" and k: "k = n - Suc m" by linarith+
  have blk: "map (\<lambda>i. sample_block np d (sdrop d (rng w)) (i - Suc m)) [Suc m..<n]
           = map (\<lambda>i. sample_block np d (rng w) (i - m)) [Suc m..<n]"
    by (rule map_cong) (simp_all add: sample_block_shift)
  have len: "d + (n - Suc m) * d = (n - m) * d"
    using lt by (metis Suc_diff_Suc mult_Suc)
  have "generate_queries np d [m..<n] acc w =
        generate_queries np d [Suc m..<n] (acc @ [sample_block np d (rng w) 0])
          (w\<lparr>rng := sdrop d (rng w)\<rparr>)"
    using lt by (simp add: upt_conv_Cons generate_random_vector_def randn_def sample_block_def)
  also have "\<dots> =
        ((acc @ [sample_block np d (rng w) 0]) @
           map (\<lambda>i. sample_block np d (sdrop d (rng w)) (i - Suc m)) [Suc m..<n],
         w\<lparr>rng := sdrop ((n - Suc m) * d) (sdrop d (rng w))\<rparr>)"
    using Suc.hyps(1)[OF k] by simp
  also have "\<dots> =
        (acc @ map (\<lambda>i. sample_block np d (rng w) (i - m)) [m..<n],
         w\<lparr>rng := sdrop ((n - m) * d) (rng w)\<rparr>)"
    using lt by (simp add: blk len upt_conv_Cons)
  finally show ?case .
qed

lemma succeeded_decoded: "succeeded r \<Longrightarrow> r \<noteq> NotFound \<and> \<not> undecodable r"
  by (cases r) simp_all

lemma preflight_eq:
  "preflight cfg w =
     (let w1 = w\<lparr>invocations := invocations w @ [\<lparr>argv = [BINARY_PATH cfg, ''count''], stdin_text = None\<rparr>]\<rparr>
      in if returned_zero (exec w (length (invocations w)) [BINARY_PATH cfg, ''count''] None)
         then (None, w1)
         else (Some (SysExit 1), w1\<lparr>printed := printed w @ preflight_error_lines cfg\<rparr>))"
  by (simp add: preflight_def spawn_def prints_eq Let_def split: proc_outcome.split)

lemma generate_all_eq:
  "generate_all cfg np w =
     (drawn_vectors cfg np (rng w),
      w\<lparr>rng := sdrop (NUM_VECTORS cfg * DIMENSION cfg) (rng w),
        printed := printed w @
          [[Lit ''Generating random vectors...''],
           [Lit ''Generated '', IntD (NUM_VECTORS cfg), Lit '' random vectors''], []]\<rparr>)"
  by (simp add: generate_all_def generate_vectors_upt print_def prints_eq drawn_vectors_def)

lemmas block_defs =
  phase1_def phase2_def report_search_def summary_def derived_metrics_def
  spawn_def time_time_def print_def prints_eq truediv_def Let_def

lemmas run_defs =
  preflight_outcome_def phase1_outcome_def phase2_outcome_def
  phase1_stdin_def phase2_stdin_def insert_time_of_def total_time_of_def
  preflight_invocation_def phase1_invocation_def phase2_invocation_def

lemma main_invocations:
  "invocations (snd (main cfg np env)) =
     (if \<not> returned_zero (preflight_outcome cfg env) then [preflight_invocation cfg]
      else if \<not> succeeded (phase1_outcome cfg np env) \<or> insert_time_of env = 0
      then [preflight_invocation cfg, phase1_invocation cfg np env]
      else [preflight_invocation cfg, phase1_invocation cfg np env, phase2_invocation cfg np env])"
  by (simp add: main_def init_state_def preflight_eq generate_all_eq generate_queries_upt
        drawn_queries_def block_defs run_defs
      split: proc_outcome.split sum.split prod.split)

lemma phase1_eq:
  "phase1 cfg np vectors w =
     (let r = exec w (length (invocations w)) [BINARY_PATH cfg]
                (Some (join [] (phase1_commands np vectors)));
          insert_time = shd (stl (clk w)) - shd (clk w);
          w3 = w\<lparr>clk := stl (clk w),
                 invocations := invocations w @
                   [\<lparr>argv = [BINARY_PATH cfg],
                     stdin_text = Some (join [] (phase1_commands np vectors))\<rparr>],
                 printed := printed w @ [[Lit ''Phase 1: Benchmarking insertions...'']]\<rparr>;
          w4 = w3\<lparr>clk := stl (stl (clk w))\<rparr>
      in if r = NotFound then (Inl (Uncaught FileNotFoundError), w3)
         else if undecodable r then (Inl (Uncaught UnicodeDecodeError), w3)
         else if \<not> succeeded r
         then (Inl (SysExit 1),
               w4\<lparr>printed := printed w3 @
                      [[Lit ''Error during insertion:''], [Captured (stderr_of r)]]\<rparr>)
         else if insert_time = 0
         then (Inl (Uncaught ZeroDivisionError),
               w4\<lparr>printed := printed w3 @ take 1 (phase1_report_lines cfg insert_time)\<rparr>)
         else (Inr insert_time,
               w4\<lparr>printed := printed w3 @ phase1_report_lines cfg insert_time\<rparr>))"
  by (cases "exec w (length (invocations w)) [BINARY_PATH cfg]
                (Some (join [] (phase1_commands np vectors)))")
     (simp_all add: phase1_def spawn_def time_time_def print_def prints_eq truediv_def Let_def
        phase1_report_lines_def)

lemma phase2_eq:
  "phase2 cfg np vectors w =
     (let qs = map (sample_block np (DIMENSION cfg) (rng w)) [0..<100];
          inp = Some (join [] (phase2_commands np vectors qs));
          r = exec w (length (invocations w)) [BINARY_PATH cfg] inp;
          total_time = shd (stl (clk w)) - shd (clk w);
          w4 = w\<lparr>rng := sdrop (100 * DIMENSION cfg) (rng w),
                 clk := stl (clk w),
                 invocations := invocations w @ [\<lparr>argv = [BINARY_PATH cfg], stdin_text = inp\<rparr>],
                 printed := printed w @ phase2_header_lines\<rparr>;
          w5 = w4\<lparr>clk := stl (stl (clk w))\<rparr>
      in if r = NotFound then (Inl (Uncaught FileNotFoundError), w4)
         else if undecodable r then (Inl (Uncaught UnicodeDecodeError), w4)
         else if \<not> succeeded r
         then (Inl (SysExit 1),
               w5\<lparr>printed := printed w4 @
                      [[Lit ''Error during search benchmark:''], [Captured (stderr_of r)]]\<rparr>)
         else (Inr total_time, w5))"
  by (cases "exec w (length (invocations w)) [BINARY_PATH cfg]
        (Some (join [] (phase2_commands np vectors
           (map (sample_block np (DIMENSION cfg) (rng w)) [0..<100]))))")
     (simp_all add: phase2_def spawn_def time_time_def print_def prints_eq Let_def
        phase2_header_lines_def generate_queries_upt)

lemma report_search_eq:
  "report_search (total_time - insert_time) ((total_time - insert_time) / 100) w =
     (if total_time = insert_time
      then (Some (Uncaught ZeroDivisionError),
            w\<lparr>printed := printed w @ take 2 (search_report_lines insert_time total_time)\<rparr>)
      else (None, w\<lparr>printed := printed w @ search_report_lines insert_time total_time\<rparr>))"
  by (simp add: report_search_def prints_eq truediv_def Let_def search_report_lines_def)

lemma summary_eq:
  "total_time \<noteq> insert_time \<Longrightarrow> insert_time \<noteq> 0 \<Longrightarrow>
   summary cfg insert_time total_time (total_time - insert_time)
       ((total_time - insert_time) / 100) w =
     (if NUM_VECTORS cfg = 0
      then (Uncaught ZeroDivisionError,
            w\<lparr>printed := printed w @ take 9 (summary_lines cfg insert_time total_time)\<rparr>)
      else (Returned, w\<lparr>printed := printed w @ summary_lines cfg insert_time total_time\<rparr>))"
  by (simp add: summary_def print_def prints_eq truediv_def Let_def summary_lines_def)

lemma phase2_outcome_unfold:
  "phase2_outcome cfg np env =
     os_exec env (Suc (Suc 0)) [BINARY_PATH cfg] (Some (phase2_stdin cfg np env))"
  by (simp add: phase2_outcome_def numeral_2_eq_2)

lemmas main_unfold =
  main_def init_state_def preflight_eq generate_all_eq phase1_eq phase2_eq derived_metrics_def
  report_search_eq summary_eq Let_def prints_eq drawn_queries_def
  preflight_outcome_def phase1_outcome_def phase2_outcome_unfold
  phase1_stdin_def phase2_stdin_def insert_time_of_def total_time_of_def generation_lines_def

lemma main_exit_printed:
  "fst (main cfg np env) =
     (if \<not> returned_zero (preflight_outcome cfg env) then SysExit 1
      else if phase1_outcome cfg np env = NotFound then Uncaught FileNotFoundError
      else if undecodable (phase1_outcome cfg np env) then Uncaught UnicodeDecodeError
      else if \<not> succeeded (phase1_outcome cfg np env) then SysExit 1
      else if insert_time_of env = 0 then Uncaught ZeroDivisionError
      else if phase2_outcome cfg np env = NotFound then Uncaught FileNotFoundError
      else if undecodable (phase2_outcome cfg np env) then Uncaught UnicodeDecodeError
      else if \<not> succeeded (phase2_outcome cfg np env) then SysExit 1
      else if total_time_of env = insert_time_of env \<or> NUM_VECTORS cfg = 0
      then Uncaught ZeroDivisionError
      else Returned) \<and>
   printed (snd (main cfg np env)) =
     banner_lines cfg @
     (if \<not> returned_zero (preflight_outcome cfg env) then preflight_error_lines cfg
      else generation_lines cfg @ [[Lit ''Phase 1: Benchmarking insertions...'']] @
       (if phase1_outcome cfg np env = NotFound \<or> undecodable (phase1_outcome cfg np env) then []
        else if \<not> succeeded (phase1_outcome cfg np env)
        then [[Lit ''Error during insertion:''], [Captured (stderr_of (phase1_outcome cfg np env))]]
        else if insert_time_of env = 0 then take 1 (phase1_report_lines cfg (insert_time_of env))
        else phase1_report_lines cfg (insert_time_of env) @ phase2_header_lines @
         (if phase2_outcome cfg np env = NotFound \<or> undecodable (phase2_outcome cfg np env)
          then []
          else if \<not> succeeded (phase2_outcome cfg np env)
          then [[Lit ''Error during search benchmark:''],
                [Captured (stderr_of (phase2_outcome cfg np env))]]
          else if total_time_of env = insert_time_of env
          then take 2 (search_report_lines (insert_time_of env) (total_time_of env))
          else search_report_lines (insert_time_of env) (total_time_of env) @
            (if NUM_VECTORS cfg = 0
             then take 9 (summary_lines cfg (insert_time_of env) (total_time_of env))
             else summary_lines cfg (insert_time_of env) (total_time_of env)))))"
proof (cases "returned_zero (preflight_outcome cfg env)")
  case False
  then show ?thesis by (simp add: main_unfold)
next
  case r0: True
  show ?thesis
  proof (cases "phase1_outcome cfg np env = NotFound")
    case True
    with r0 show ?thesis by (simp add: main_unfold)
  next
    case n1: False
    show ?thesis
    proof (cases "undecodable (phase1_outcome cfg np env)")
      case True
      with r0 n1 show ?thesis by (simp add: main_unfold)
    next
      case u1: False
      show ?thesis
      proof (cases "succeeded (phase1_outcome cfg np env)")
        case False
        with r0 n1 u1 show ?thesis by (simp add: main_unfold)
      next
        case r1: True
        show ?thesis
        proof (cases "insert_time_of env = 0")
          case True
          with r0 n1 u1 r1 show ?thesis by (simp add: main_unfold)
        next
          case it: False
          show ?thesis
          proof (cases "phase2_outcome cfg np env = NotFound")
            case True
            with r0 n1 u1 r1 it show ?thesis by (simp add: main_unfold)
          next
            case n2: False
            show ?thesis
            proof (cases "undecodable (phase2_outcome cfg np env)")
              case True
              with r0 n1 u1 r1 it n2 show ?thesis by (simp add: main_unfold)
            next
              case u2: False
              show ?thesis
              proof (cases "succeeded (phase2_outcome cfg np env)")
                case False
                with r0 n1 u1 r1 it n2 u2 show ?thesis by (simp add: main_unfold)
              next
                case r2: True
                show ?thesis
                proof (cases "total_time_of env = insert_time_of env")
                  case True
                  with r0 n1 u1 r1 it n2 u2 r2 show ?thesis
                    by (simp add: main_unfold report_search_def truediv_def
                        search_report_lines_def)
                next
                  case False
                  with r0 n1 u1 r1 it n2 u2 r2 show ?thesis by (simp add: main_unfold)
                qed
              qed
            qed
          qed
        qed
      qed
    qed
  qed
qed

lemmas main_exit = main_exit_printed [THEN conjunct1]

lemmas main_printed = main_exit_printed [THEN conjunct2]

subsection \<open>The command lists\<close>

lemma phase1_commands_eq:
  "phase1_commands np vectors = map (\<lambda>(vec_id, vec). insert_cmd np vec_id vec) vectors @ [exit_cmd]"
proof -
  have "foldl (\<lambda>cmds (vec_id, vec). cmds @ [insert_cmd np vec_id vec]) acc vectors =
        acc @ map (\<lambda>(vec_id, vec). insert_cmd np vec_id vec) vectors" for acc
    by (induction vectors arbitrary: acc) (simp_all add: case_prod_beta)
  then show ?thesis by (simp add: phase1_commands_def)
qed

lemma phase2_commands_eq:
  "phase2_commands np vectors query_vectors =
     map (\<lambda>(vec_id, vec). insert_cmd np vec_id vec) vectors @
     map (search_cmd np) query_vectors @ [exit_cmd]"
proof -
  have "foldl (\<lambda>cmds (vec_id, vec). cmds @ [insert_cmd np vec_id vec]) acc vectors =
        acc @ map (\<lambda>(vec_id, vec). insert_cmd np vec_id vec) vectors" for acc
    by (induction vectors arbitrary: acc) (simp_all add: case_prod_beta)
  then show ?thesis by (simp add: phase2_commands_def foldl_append_map)
qed

lemma phase_stdin_eq:
  "phase1_stdin cfg np env = concat (insert_lines cfg np env) @ exit_cmd"
  "phase2_stdin cfg np env =
     concat (insert_lines cfg np env) @ concat (search_lines cfg np env) @ exit_cmd"
  by (simp_all add: phase1_stdin_def phase2_stdin_def phase1_commands_eq phase2_commands_eq
      join_Nil_concat insert_lines_def search_lines_def)

lemma lines_length:
  "length (insert_lines cfg np env) = NUM_VECTORS cfg"
  "length (search_lines cfg np env) = 100"
  by (simp_all add: insert_lines_def search_lines_def drawn_vectors_def drawn_queries_def)



lemma generated_nth:
  "i < NUM_VECTORS cfg \<Longrightarrow>
   fst (generate_all cfg np w) ! i = (vec_key i, sample_block np (DIMENSION cfg) (rng w) i)"
  by (simp add: generate_all_eq drawn_vectors_def)

lemma generated_length: "length (fst (generate_all cfg np w)) = NUM_VECTORS cfg"
  by (simp add: generate_all_eq drawn_vectors_def)

lemma phase_commands_nth:
  assumes "i < length vectors"
  shows "phase1_commands np vectors ! i = insert_cmd np (fst (vectors ! i)) (snd (vectors ! i))"
    and "phase2_commands np vectors query_vectors ! i =
           insert_cmd np (fst (vectors ! i)) (snd (vectors ! i))"
  using assms
  by (simp_all add: phase1_commands_eq phase2_commands_eq nth_append case_prod_beta)

subsection \<open>What whole runs send and print\<close>



lemma heading_not_rule60: "[Lit ''Benchmark Summary''] \<noteq> rule60"
proof
  assume "[Lit ''Benchmark Summary''] = rule60"
  then have "length ''Benchmark Summary'' = length (replicate 60 CHR ''='')"
    by (simp add: rule60_def)
  then show False by simp
qed

lemma summary_heading_not_in_phase1_prefix:
  "[Lit ''Benchmark Summary''] \<notin> set (banner_lines cfg @ generation_lines cfg @
      [[Lit ''Phase 1: Benchmarking insertions...'']])"
  using heading_not_rule60 by (simp add: banner_lines_def generation_lines_def)

lemma summary_heading_not_in_phase2_prefix:
  "[Lit ''Benchmark Summary''] \<notin> set (phase1_report_lines cfg t @ phase2_header_lines)"
  by (simp add: phase1_report_lines_def phase2_header_lines_def)

lemma reaches_metrics_printed:
  assumes "returned_zero (preflight_outcome cfg env)" "succeeded (phase1_outcome cfg np env)"
    "insert_time_of env \<noteq> 0" "succeeded (phase2_outcome cfg np env)"
  shows "\<exists>pre post. printed (snd (main cfg np env)) =
           pre @ take 2 (search_report_lines (insert_time_of env) (total_time_of env)) @ post"
proof -
  from assms have n: "phase1_outcome cfg np env \<noteq> NotFound" "phase2_outcome cfg np env \<noteq> NotFound"
    "\<not> undecodable (phase1_outcome cfg np env)" "\<not> undecodable (phase2_outcome cfg np env)"
    by (simp_all add: succeeded_decoded)
  show ?thesis
  proof (cases "total_time_of env = insert_time_of env")
    case True
    with assms n have "printed (snd (main cfg np env)) =
        (banner_lines cfg @ generation_lines cfg @ [[Lit ''Phase 1: Benchmarking insertions...'']] @
         phase1_report_lines cfg (insert_time_of env) @ phase2_header_lines) @
        take 2 (search_report_lines (insert_time_of env) (total_time_of env)) @ []"
      by (simp add: main_printed)
    then show ?thesis by blast
  next
    case False
    have split: "search_report_lines a b = take 2 (search_report_lines a b) @ drop 2 (search_report_lines a b)"
      for a b by simp
    from False assms n have "printed (snd (main cfg np env)) =
        (banner_lines cfg @ generation_lines cfg @ [[Lit ''Phase 1: Benchmarking insertions...'']] @
         phase1_report_lines cfg (insert_time_of env) @ phase2_header_lines) @
        take 2 (search_report_lines (insert_time_of env) (total_time_of env)) @
        (drop 2 (search_report_lines (insert_time_of env) (total_time_of env)) @
         (if NUM_VECTORS cfg = 0
             then take 9 (summary_lines cfg (insert_time_of env) (total_time_of env))
             else summary_lines cfg (insert_time_of env) (total_time_of env)))"
      by (simp add: main_printed del: append_take_drop_id)
         (simp add: search_report_lines_def)
    then show ?thesis by blast
  qed
qed

lemma returned_conditions:
  assumes "fst (main cfg np env) = Returned"
  shows "returned_zero (preflight_outcome cfg env)" "succeeded (phase1_outcome cfg np env)"
    "succeeded (phase2_outcome cfg np env)" "insert_time_of env \<noteq> 0"
    "total_time_of env \<noteq> insert_time_of env" "NUM_VECTORS cfg \<noteq> 0"
  using assms by (simp_all add: main_exit split: if_splits)

lemma returned_printed:
  assumes "fst (main cfg np env) = Returned"
  shows "printed (snd (main cfg np env)) =
           banner_lines cfg @ generation_lines cfg @
           [[Lit ''Phase 1: Benchmarking insertions...'']] @
           phase1_report_lines cfg (insert_time_of env) @ phase2_header_lines @
           search_report_lines (insert_time_of env) (total_time_of env) @
           summary_lines cfg (insert_time_of env) (total_time_of env)"
proof -
  note c = returned_conditions [OF assms]
  from c(2,3) have "phase1_outcome cfg np env \<noteq> NotFound" "phase2_outcome cfg np env \<noteq> NotFound"
    "\<not> undecodable (phase1_outcome cfg np env)" "\<not> undecodable (phase2_outcome cfg np env)"
    by (simp_all add: succeeded_decoded)
  with c show ?thesis by (simp add: main_printed)
qed

lemma summary_lines_tail:
  "summary_lines cfg a b =
     take 16 (summary_lines cfg a b) @
     [[Lit ''Total benchmark time: '', Fixed 3 b, Lit '' seconds''], rule60]"
  by (simp add: summary_lines_def)

lemma search_report_printed:
  assumes "returned_zero (preflight_outcome cfg env)" "succeeded (phase1_outcome cfg np env)"
    "insert_time_of env \<noteq> 0" "succeeded (phase2_outcome cfg np env)"
    "total_time_of env \<noteq> insert_time_of env"
  shows "\<exists>pre post. printed (snd (main cfg np env)) =
           pre @ search_report_lines (insert_time_of env) (total_time_of env) @ post"
proof -
  from assms have n: "phase1_outcome cfg np env \<noteq> NotFound" "phase2_outcome cfg np env \<noteq> NotFound"
    "\<not> undecodable (phase1_outcome cfg np env)" "\<not> undecodable (phase2_outcome cfg np env)"
    by (simp_all add: succeeded_decoded)
  from assms n have "printed (snd (main cfg np env)) =
        (banner_lines cfg @ generation_lines cfg @ [[Lit ''Phase 1: Benchmarking insertions...'']] @
         phase1_report_lines cfg (insert_time_of env) @ phase2_header_lines) @
        search_report_lines (insert_time_of env) (total_time_of env) @
        (if NUM_VECTORS cfg = 0
             then take 9 (summary_lines cfg (insert_time_of env) (total_time_of env))
             else summary_lines cfg (insert_time_of env) (total_time_of env))"
    by (simp add: main_printed)
  then show ?thesis by blast
qed

subsection \<open>Keys, digits and line feeds\<close>


lemma digit_char_in_digits: "d < 10 \<Longrightarrow> digit_char d \<in> set ''0123456789''"
  unfolding digit_char_def by (rule nth_mem) simp

lemma str_nat_digits: "set (str_nat n) \<subseteq> set ''0123456789''"
proof (induction n rule: str_nat.induct)
  case (1 n)
  show ?case
  proof (cases "n < 10")
    case True
    then show ?thesis
      using digit_char_in_digits [of n] by (subst str_nat.simps) simp
  next
    case False
    have "n mod 10 < 10" by simp
    then have "digit_char (n mod 10) \<in> set ''0123456789''"
      by (rule digit_char_in_digits)
    with False 1 show ?thesis
      by (subst str_nat.simps) simp
  qed
qed

lemma digit_not_space: "c \<in> set ''0123456789'' \<Longrightarrow> \<not> is_space c"
  by (auto simp add: is_space_def)


lemma vec_key_whitespace_free: "whitespace_free (vec_key i)"
proof -
  have "\<forall>c \<in> set (str_nat i). \<not> is_space c"
    using str_nat_digits [of i] digit_not_space by blast
  moreover have "\<forall>c \<in> set ''vec_''. \<not> is_space c"
    by (simp add: is_space_def)
  ultimately show ?thesis
    unfolding whitespace_free_def list_all_iff vec_key_def by (metis Un_iff set_append)
qed


lemma digit_value_digit_char: "d < 10 \<Longrightarrow> digit_value (digit_char d) = d"
proof -
  assume "d < 10"
  then have "d \<in> {0, 1, 2, 3, 4, 5, 6, 7, 8, 9}" by auto
  then show ?thesis
    by (auto simp add: digit_value_def digit_char_def)
qed

lemma decimal_value_snoc: "decimal_value (s @ [c]) = 10 * decimal_value s + digit_value c"
  by (simp add: decimal_value_def)

lemma decimal_value_str_nat: "decimal_value (str_nat n) = n"
proof (induction n rule: str_nat.induct)
  case (1 n)
  show ?case
  proof (cases "n < 10")
    case True
    then show ?thesis
      by (subst str_nat.simps) (simp add: decimal_value_def digit_value_digit_char)
  next
    case False
    with 1 show ?thesis
      by (subst str_nat.simps) (simp add: decimal_value_snoc digit_value_digit_char)
  qed
qed





subsection \<open>Splitting at spaces\<close>

lemma split_on_not_Nil: "split_on sep s \<noteq> []"
  by (induction s) (simp_all split: list.split)

lemma split_on_no_sep: "sep \<notin> set s \<Longrightarrow> split_on sep s = [s]"
  by (induction s) auto

lemma split_on_field:
  "sep \<notin> set fld \<Longrightarrow> split_on sep (fld @ sep # rest) = fld # split_on sep rest"
  by (induction fld) auto

lemma split_on_join:
  assumes "flds \<noteq> []" "\<forall>f \<in> set flds. sep \<notin> set f"
  shows "split_on sep (join [sep] flds) = flds"
  using assms
proof (induction flds rule: induct_list012)
  case 1
  then show ?case by simp
next
  case (2 x)
  then show ?case by (simp add: split_on_no_sep)
next
  case (3 x y zs)
  then have "split_on sep (join [sep] (y # zs)) = y # zs" by simp
  moreover from 3 have "sep \<notin> set x" by simp
  ultimately show ?case
    using split_on_field [of sep x "join [sep] (y # zs)"] by simp
qed

lemma whitespace_free_no_space: "whitespace_free s \<Longrightarrow> CHR '' '' \<notin> set s"
  by (auto simp add: whitespace_free_def list_all_iff is_space_def)

lemma insert_cmd_fields:
  assumes "CHR '' '' \<notin> set key"
  shows "split_on CHR '' '' (butlast (insert_cmd np key vec)) =
           ''insert'' # key # split_on CHR '' '' (format_vector np vec)"
proof -
  have "butlast (insert_cmd np key vec) = ''insert'' @ CHR '' '' # (key @ CHR '' '' # format_vector np vec)"
    by (simp add: insert_cmd_def butlast_append)
  moreover have "CHR '' '' \<notin> set ''insert''" by simp
  ultimately show ?thesis
    using split_on_field [of "CHR '' ''" "''insert''" "key @ CHR '' '' # format_vector np vec"]
      split_on_field [OF assms, of "format_vector np vec"]
    by simp
qed

subsection \<open>The concrete runs\<close>

lemma demo_times:
  "insert_time_of demo_env = 2" "total_time_of demo_env = 5"
  "insert_time_of demo_env_phase1_fails = 2" "insert_time_of demo_env_phase2_fails = 2"
  "insert_time_of demo_env_phase1_undecodable = 2" "insert_time_of demo_env_phase2_undecodable = 2"
  by (simp_all add: insert_time_of_def total_time_of_def demo_env_def demo_clock_def
      demo_env_phase1_fails_def demo_env_phase2_fails_def demo_env_phase1_undecodable_def
      demo_env_phase2_undecodable_def)

lemma demo_outcomes:
  "preflight_outcome demo_cfg demo_env = Completed 0 [] []"
  "phase1_outcome demo_cfg demo_np demo_env = Completed 0 [] []"
  "phase2_outcome demo_cfg demo_np demo_env = Completed 0 [] []"
  "preflight_outcome demo_cfg demo_env_phase1_fails = Completed 0 [] []"
  "phase1_outcome demo_cfg demo_np demo_env_phase1_fails = Completed 2 [] ''dimension mismatch''"
  "preflight_outcome demo_cfg demo_env_phase2_fails = Completed 0 [] []"
  "phase1_outcome demo_cfg demo_np demo_env_phase2_fails = Completed 0 [] []"
  "phase2_outcome demo_cfg demo_np demo_env_phase2_fails = Completed 2 [] ''index is empty''"
  "preflight_outcome demo_cfg demo_env_phase1_undecodable = Completed 0 [] []"
  "phase1_outcome demo_cfg demo_np demo_env_phase1_undecodable = Undecodable 2"
  "preflight_outcome demo_cfg demo_env_phase2_undecodable = Completed 0 [] []"
  "phase1_outcome demo_cfg demo_np demo_env_phase2_undecodable = Completed 0 [] []"
  "phase2_outcome demo_cfg demo_np demo_env_phase2_undecodable = Undecodable 2"
  by (simp_all add: preflight_outcome_def phase1_outcome_def phase2_outcome_def demo_env_def
      demo_env_phase1_fails_def demo_env_phase2_fails_def demo_env_phase1_undecodable_def
      demo_env_phase2_undecodable_def)

lemma demo_returns: "fst (main demo_cfg demo_np demo_env) = Returned"
  by (simp add: main_exit demo_outcomes demo_times) (simp add: demo_cfg_def)

lemma demo_samples_tail: "sdrop 4 demo_samples = sconst 0"
  by (simp only: demo_samples_def sdrop_shift) simp

lemma demo_stakes:
  "stake 2 demo_samples = [0x3FF0000000000000, 0xBFE0000000000000]"
  "stake 2 (sdrop 2 demo_samples) = [0x4004000000000000, 0x3FF0000000000000]"
  "stake 2 (sdrop 4 demo_samples) = [0, 0]"
  by (simp_all add: demo_samples_tail numeral_2_eq_2) (simp_all add: demo_samples_def)

lemma demo_blocks:
  "sample_block demo_np (DIMENSION demo_cfg) (randn_samples demo_env) 0 = [0x3F800000, 0xBF000000]"
  "sample_block demo_np (DIMENSION demo_cfg) (randn_samples demo_env) (Suc 0) =
     [0x40200000, 0x3F800000]"
  "sample_block demo_np (DIMENSION demo_cfg)
     (sdrop (NUM_VECTORS demo_cfg * DIMENSION demo_cfg) (randn_samples demo_env)) 0 = [0, 0]"
  by (simp_all add: sample_block_def demo_cfg_def demo_env_def demo_stakes)
     (simp_all add: demo_np_def)

lemma demo_keys: "vec_key 0 = ''vec_0''" "vec_key (Suc 0) = ''vec_1''"
  by (simp_all add: vec_key_def str_nat.simps digit_char_def)

lemma demo_cmds:
  "insert_cmd demo_np ''vec_0'' [0x3F800000, 0xBF000000] = ''insert vec_0 1.0 -0.5'' @ [newline]"
  "insert_cmd demo_np ''vec_1'' [0x40200000, 0x3F800000] = ''insert vec_1 2.5 1.0'' @ [newline]"
  "search_cmd demo_np [0, 0] = ''search 0.0 0.0 --k_top 10'' @ [newline]"
  by (simp_all add: insert_cmd_def search_cmd_def format_vector_def demo_np_def)


subsection \<open>The Vector Generator\<close>

text \<open>
  C6. \<open>generate_random_vector\<close> returns a vector of exactly the requested
  length, and lines 46-53 of \<open>main\<close> produce exactly \<open>NUM_VECTORS\<close> vectors, the
  \<open>i\<close>-th under the key \<open>vec_i\<close>, each of exactly \<open>DIMENSION\<close> components, every
  component being the float32 cast of a sample returned by \<open>randn\<close>: the \<open>i\<close>-th
  vector holds the \<open>i\<close>-th block of \<open>DIMENSION\<close> consecutive samples. That the
  samples follow a standard normal distribution is a property of numpy's
  generator, which is the source of samples here. The statement also holds when
  the count or the dimension is zero.
\<close>

theorem generated_vectors_shape:
  "length (fst (generate_random_vector np d w)) = d \<and>
   length (fst (generate_all cfg np w)) = NUM_VECTORS cfg \<and>
   (\<forall>i < NUM_VECTORS cfg.
      fst (generate_all cfg np w) ! i =
        (vec_key i,
         map (astype_float32 np) (stake (DIMENSION cfg) (sdrop (i * DIMENSION cfg) (rng w)))) \<and>
      length (snd (fst (generate_all cfg np w) ! i)) = DIMENSION cfg)"
  by (simp add: generate_random_vector_def randn_def generate_all_eq drawn_vectors_def
      sample_block_def)

theorem generated_vectors_shape_witness:
  "(1::nat) < NUM_VECTORS demo_cfg \<and>
   fst (generate_all demo_cfg demo_np demo_state) ! 1 = (''vec_1'', [0x40200000, 0x3F800000]) \<and>
   length (snd (fst (generate_all demo_cfg demo_np demo_state) ! 1)) = 2"
proof -
  have h: "(1::nat) < NUM_VECTORS demo_cfg"
    by (simp add: demo_cfg_def)
  from generated_vectors_shape [of demo_np 2 demo_state demo_cfg] h
  have "fst (generate_all demo_cfg demo_np demo_state) ! 1 =
          (vec_key 1,
           map (astype_float32 demo_np)
             (stake (DIMENSION demo_cfg) (sdrop (1 * DIMENSION demo_cfg) (rng demo_state)))) \<and>
        length (snd (fst (generate_all demo_cfg demo_np demo_state) ! 1)) = DIMENSION demo_cfg"
    by blast
  moreover have "vec_key 1 = ''vec_1''"
    by (simp add: vec_key_def str_nat.simps digit_char_def)
  moreover have "stake 2 (sdrop 2 demo_samples) = [0x4004000000000000, 0x3FF0000000000000]"
    by (simp add: demo_samples_def numeral_2_eq_2)
  ultimately show ?thesis
    using h by (simp add: demo_cfg_def demo_np_def demo_state_def)
qed

subsection \<open>The Protocol Encoder\<close>

text \<open>
  The framing of an insert line. For a key without whitespace and a vector
  whose components numpy renders without a space, splitting the encoded line,
  less its line feed, at spaces gives \<open>insert\<close>, the key, and then the
  renderings of the components, one field each and in order (a single empty
  field when the vector has no component). What a reader makes of each
  rendering is the business of its float parser and of numpy, not of the
  script.
\<close>

lemma insert_line_fields:
  assumes "whitespace_free key"
    and "\<forall>x \<in> set vec. CHR '' '' \<notin> set (str_float32 np x)"
  shows "split_on CHR '' '' (butlast (insert_cmd np key vec)) =
           ''insert'' # key # (if vec = [] then [[]] else map (str_float32 np) vec)"
proof -
  have nosp: "CHR '' '' \<notin> set key"
    using assms(1) by (rule whitespace_free_no_space)
  show ?thesis
  proof (cases vec)
    case Nil
    then show ?thesis
      using insert_cmd_fields [OF nosp, of np vec] by (simp add: format_vector_def)
  next
    case (Cons x xs)
    let ?strs = "map (str_float32 np) vec"
    have ne: "?strs \<noteq> []" using Cons by simp
    have sp: "\<forall>f \<in> set ?strs. CHR '' '' \<notin> set f" using assms(2) by auto
    have "split_on CHR '' '' (format_vector np vec) = ?strs"
      unfolding format_vector_def using split_on_join [OF ne sp] by simp
    with Cons show ?thesis
      using insert_cmd_fields [OF nosp, of np vec] by simp
  qed
qed

text \<open>
  C8. The line encoded for a pair of key and vector depends on the pair alone:
  wherever the same pair stands, at any position of any list of vectors, in
  the phase-1 loop (line 59) or in the phase-2 loop (line 91), whatever the
  query vectors, the command built for it is the same string, namely
  \<open>insert_cmd\<close> of the key and the vector.
\<close>

theorem encoding_is_deterministic:
  assumes "i < length vectors" and "j < length vectors'" and "vectors ! i = vectors' ! j"
  shows "phase1_commands np vectors ! i = insert_cmd np (fst (vectors ! i)) (snd (vectors ! i)) \<and>
         phase1_commands np vectors' ! j = phase1_commands np vectors ! i \<and>
         phase2_commands np vectors query_vectors ! i = phase1_commands np vectors ! i \<and>
         phase2_commands np vectors' query_vectors' ! j = phase1_commands np vectors ! i"
  using phase_commands_nth [OF assms(1)] phase_commands_nth [OF assms(2)] assms(3)
  by simp

theorem encoding_is_deterministic_witness:
  "phase1_commands demo_np [(''vec_0'', [0x3F800000, 0xBF000000]), (''vec_1'', [0x40200000, 0x3F800000])] ! 1 =
     ''insert vec_1 2.5 1.0'' @ [newline] \<and>
   phase2_commands demo_np [(''vec_1'', [0x40200000, 0x3F800000])] [[0, 0]] ! 0 =
     ''insert vec_1 2.5 1.0'' @ [newline]"
proof -
  have h: "(1::nat) < length [(''vec_0'', [0x3F800000, 0xBF000000 :: float32]),
                             (''vec_1'', [0x40200000, 0x3F800000])]"
    "(0::nat) < length [(''vec_1'', [0x40200000, 0x3F800000 :: float32])]"
    "[(''vec_0'', [0x3F800000, 0xBF000000 :: float32]), (''vec_1'', [0x40200000, 0x3F800000])] ! 1 =
     [(''vec_1'', [0x40200000, 0x3F800000])] ! 0"
    by simp_all
  from encoding_is_deterministic [OF h, of demo_np "[]" "[[0, 0]]"] demo_cmds(2)
  show ?thesis by simp
qed

subsection \<open>The workload of the two phases\<close>



text \<open>
  C9. For every index \<open>i\<close> below \<open>NUM_VECTORS\<close>, the \<open>i\<close>-th generated pair has
  the key \<open>vec_\<close> followed by the decimal digits of \<open>i\<close> (a string of digits
  whose value is \<open>i\<close>), and the \<open>i\<close>-th command of the phase-1 list and of the
  phase-2 list is \<open>insert\<close>, that key and the rendering of the \<open>i\<close>-th vector,
  separated by single spaces and ended by a line feed. The key contains no
  whitespace, so splitting the line at spaces yields \<open>insert\<close>, the key, and
  then the fields of the vector: the key occupies exactly the second field.
\<close>

theorem insert_keys_are_vec_index:
  assumes "i < NUM_VECTORS cfg"
  shows "fst (fst (generate_all cfg np w) ! i) = ''vec_'' @ str_nat i \<and>
         set (str_nat i) \<subseteq> set ''0123456789'' \<and>
         decimal_value (str_nat i) = i \<and>
         phase1_commands np (fst (generate_all cfg np w)) ! i =
           ''insert '' @ (''vec_'' @ str_nat i) @ '' '' @
           format_vector np (snd (fst (generate_all cfg np w) ! i)) @ [newline] \<and>
         phase2_commands np (fst (generate_all cfg np w)) query_vectors ! i =
           ''insert '' @ (''vec_'' @ str_nat i) @ '' '' @
           format_vector np (snd (fst (generate_all cfg np w) ! i)) @ [newline] \<and>
         whitespace_free (''vec_'' @ str_nat i) \<and>
         split_on CHR '' '' (butlast (phase1_commands np (fst (generate_all cfg np w)) ! i)) =
           ''insert'' # (''vec_'' @ str_nat i) #
           split_on CHR '' '' (format_vector np (snd (fst (generate_all cfg np w) ! i)))"
proof -
  let ?vs = "fst (generate_all cfg np w)"
  have len: "i < length ?vs"
    using assms by (simp add: generated_length)
  have key: "fst (?vs ! i) = vec_key i"
    using assms by (simp add: generated_nth)
  have p1: "phase1_commands np ?vs ! i = insert_cmd np (vec_key i) (snd (?vs ! i))"
    using phase_commands_nth(1) [OF len] key by simp
  have p2: "phase2_commands np ?vs query_vectors ! i = insert_cmd np (vec_key i) (snd (?vs ! i))"
    using phase_commands_nth(2) [OF len] key by simp
  have ws: "whitespace_free (vec_key i)"
    by (rule vec_key_whitespace_free)
  have fields: "split_on CHR '' '' (butlast (insert_cmd np (vec_key i) (snd (?vs ! i)))) =
      ''insert'' # vec_key i # split_on CHR '' '' (format_vector np (snd (?vs ! i)))"
    by (rule insert_cmd_fields) (rule whitespace_free_no_space [OF ws])
  from key p1 p2 ws fields str_nat_digits [of i] decimal_value_str_nat [of i]
  show ?thesis
    by (simp add: vec_key_def insert_cmd_def)
qed

theorem insert_keys_are_vec_index_witness:
  "(1::nat) < NUM_VECTORS demo_cfg \<and>
   str_nat 1 = ''1'' \<and>
   fst (fst (generate_all demo_cfg demo_np demo_state) ! 1) = ''vec_1'' \<and>
   phase1_commands demo_np (fst (generate_all demo_cfg demo_np demo_state)) ! 1 =
     ''insert vec_1 2.5 1.0'' @ [newline] \<and>
   phase2_commands demo_np (fst (generate_all demo_cfg demo_np demo_state)) [[0, 0]] ! 1 =
     ''insert vec_1 2.5 1.0'' @ [newline] \<and>
   whitespace_free ''vec_1''"
proof -
  have h: "(1::nat) < NUM_VECTORS demo_cfg"
    by (simp add: demo_cfg_def)
  have s: "str_nat 1 = ''1''"
    by (simp add: str_nat.simps digit_char_def)
  have v: "snd (fst (generate_all demo_cfg demo_np demo_state) ! 1) = [0x40200000, 0x3F800000]"
    using h generated_nth [of 1 demo_cfg demo_np demo_state] demo_blocks(2)
    by (simp add: demo_state_def demo_env_def)
  have f: "format_vector demo_np [0x40200000, 0x3F800000] = ''2.5 1.0''"
    by (simp add: format_vector_def demo_np_def)
  from insert_keys_are_vec_index [OF h, of demo_np demo_state "[[0, 0]]"] h s v f
  show ?thesis by simp
qed

text \<open>
  C10. Whatever the configuration, a run encodes exactly 100 search lines,
  each of them \<open>search\<close>, the rendering of a query vector and the suffix
  \<open>--k_top 10\<close> before the line feed; they are what the phase-2 process
  receives between the insert lines and \<open>exit\<close>. The average search time is
  the search time divided by that same 100, and the figures printed on lines
  120 and 121 are \<open>search_time / 100 * 1000\<close> and \<open>100 / search_time\<close> (the
  latter is printed when the search time is not zero; otherwise line 121 raises
  \<open>ZeroDivisionError\<close>). The configuration record has no field for either
  number.
\<close>

theorem query_count_and_k_top_fixed:
  "length (search_lines cfg np env) = 100 \<and>
   (\<forall>j < 100.
      search_lines cfg np env ! j =
        ''search '' @ format_vector np (drawn_queries cfg np (randn_samples env) ! j) @
        '' --k_top 10'' @ [newline]) \<and>
   (returned_zero (preflight_outcome cfg env) \<and> succeeded (phase1_outcome cfg np env) \<and>
    insert_time_of env \<noteq> 0
    \<longrightarrow>
      stdin_text (invocations (snd (main cfg np env)) ! 2) =
        Some (concat (insert_lines cfg np env) @ concat (search_lines cfg np env) @ exit_cmd)) \<and>
   snd (derived_metrics insert_time total_time) = fst (derived_metrics insert_time total_time) / 100 \<and>
   (returned_zero (preflight_outcome cfg env) \<and> succeeded (phase1_outcome cfg np env) \<and>
    insert_time_of env \<noteq> 0 \<and> succeeded (phase2_outcome cfg np env) \<and>
    total_time_of env \<noteq> insert_time_of env
    \<longrightarrow>
      [Lit ''  Average search time: '',
       Fixed 3 ((total_time_of env - insert_time_of env) / 100 * 1000), Lit '' ms'']
        \<in> set (printed (snd (main cfg np env))) \<and>
      [Lit ''  Search throughput: '',
       Fixed 2 (100 / (total_time_of env - insert_time_of env)), Lit '' searches/sec'']
        \<in> set (printed (snd (main cfg np env))))"
proof (intro conjI impI allI)
  show "length (search_lines cfg np env) = 100"
    by (rule lines_length)
  show "snd (derived_metrics insert_time total_time) =
      fst (derived_metrics insert_time total_time) / 100"
    by (simp add: derived_metrics_def Let_def)
next
  fix j :: nat assume "j < 100"
  then show "search_lines cfg np env ! j =
        ''search '' @ format_vector np (drawn_queries cfg np (randn_samples env) ! j) @
        '' --k_top 10'' @ [newline]"
    by (simp add: search_lines_def drawn_queries_def search_cmd_def)
next
  assume "returned_zero (preflight_outcome cfg env) \<and> succeeded (phase1_outcome cfg np env) \<and>
    insert_time_of env \<noteq> 0"
  then have "invocations (snd (main cfg np env)) =
      [preflight_invocation cfg, phase1_invocation cfg np env, phase2_invocation cfg np env]"
    by (simp add: main_invocations)
  then show "stdin_text (invocations (snd (main cfg np env)) ! 2) =
        Some (concat (insert_lines cfg np env) @ concat (search_lines cfg np env) @ exit_cmd)"
    by (simp add: phase2_invocation_def phase_stdin_eq)
next
  assume a: "returned_zero (preflight_outcome cfg env) \<and> succeeded (phase1_outcome cfg np env) \<and>
    insert_time_of env \<noteq> 0 \<and> succeeded (phase2_outcome cfg np env) \<and>
    total_time_of env \<noteq> insert_time_of env"
  then obtain pre post where p: "printed (snd (main cfg np env)) =
      pre @ search_report_lines (insert_time_of env) (total_time_of env) @ post"
    using search_report_printed by blast
  show "[Lit ''  Average search time: '',
       Fixed 3 ((total_time_of env - insert_time_of env) / 100 * 1000), Lit '' ms'']
        \<in> set (printed (snd (main cfg np env)))"
    by (simp add: p search_report_lines_def)
  show "[Lit ''  Search throughput: '',
       Fixed 2 (100 / (total_time_of env - insert_time_of env)), Lit '' searches/sec'']
        \<in> set (printed (snd (main cfg np env)))"
    by (simp add: p search_report_lines_def)
qed

theorem query_count_and_k_top_fixed_witness:
  "search_lines demo_cfg demo_np demo_env ! 0 = ''search 0.0 0.0 --k_top 10'' @ [newline] \<and>
   (\<exists>body. stdin_text (invocations (snd (main demo_cfg demo_np demo_env)) ! 2) =
      Some (body @ concat (search_lines demo_cfg demo_np demo_env) @ exit_cmd)) \<and>
   [Lit ''  Average search time: '', Fixed 3 30, Lit '' ms'']
     \<in> set (printed (snd (main demo_cfg demo_np demo_env))) \<and>
   [Lit ''  Search throughput: '', Fixed 2 (100 / 3), Lit '' searches/sec'']
     \<in> set (printed (snd (main demo_cfg demo_np demo_env)))"
proof -
  note t = query_count_and_k_top_fixed [of demo_cfg demo_np demo_env 2 5]
  have h: "returned_zero (preflight_outcome demo_cfg demo_env) \<and>
      succeeded (phase1_outcome demo_cfg demo_np demo_env) \<and>
      insert_time_of demo_env \<noteq> 0 \<and> succeeded (phase2_outcome demo_cfg demo_np demo_env) \<and>
      total_time_of demo_env \<noteq> insert_time_of demo_env"
    by (simp add: demo_outcomes demo_times)
  have q: "drawn_queries demo_cfg demo_np (randn_samples demo_env) ! 0 = [0, 0]"
    using demo_blocks(3) by (simp add: drawn_queries_def)
  have f: "format_vector demo_np [0, 0] = ''0.0 0.0''"
    by (simp add: format_vector_def demo_np_def)
  have z: "(0::nat) < 100" by simp
  from t z have "search_lines demo_cfg demo_np demo_env ! 0 =
        ''search '' @ format_vector demo_np (drawn_queries demo_cfg demo_np (randn_samples demo_env) ! 0) @
        '' --k_top 10'' @ [newline]"
    by blast
  then have a: "search_lines demo_cfg demo_np demo_env ! 0 = ''search 0.0 0.0 --k_top 10'' @ [newline]"
    by (simp add: q f)
  from t h have b: "stdin_text (invocations (snd (main demo_cfg demo_np demo_env)) ! 2) =
      Some (concat (insert_lines demo_cfg demo_np demo_env) @
            concat (search_lines demo_cfg demo_np demo_env) @ exit_cmd)"
    by blast
  from t h have c: "[Lit ''  Average search time: '', Fixed 3 30, Lit '' ms'']
        \<in> set (printed (snd (main demo_cfg demo_np demo_env))) \<and>
      [Lit ''  Search throughput: '', Fixed 2 (100 / 3), Lit '' searches/sec'']
        \<in> set (printed (snd (main demo_cfg demo_np demo_env)))"
    by (simp add: demo_times)
  from a b c show ?thesis by blast
qed

subsection \<open>Failure handling\<close>

text \<open>
  C3. When the pre-flight invocation of the binary with the single argument
  \<open>count\<close> fails, either because the binary cannot be started or because it
  returns a non-zero code (whether or not its output is text, which the
  pre-flight call never decodes), \<open>main\<close> ends with exit status 1, has printed, after
  the banner, exactly the two lines that name the binary path and tell the user
  to build the project, and has started no process other than the pre-flight
  one: neither phase is run.
\<close>

theorem preflight_failure_halts:
  assumes "os_exec env 0 [BINARY_PATH cfg, ''count''] None = NotFound \<or>
           (\<exists>returncode out err.
              os_exec env 0 [BINARY_PATH cfg, ''count''] None = Completed returncode out err \<and>
              returncode \<noteq> 0) \<or>
           (\<exists>returncode.
              os_exec env 0 [BINARY_PATH cfg, ''count''] None = Undecodable returncode \<and>
              returncode \<noteq> 0)"
  shows "exit_status (fst (main cfg np env)) = 1 \<and>
         printed (snd (main cfg np env)) =
           banner_lines cfg @
           [[Lit ''Error: Could not find binary at '', Lit (BINARY_PATH cfg)],
            [Lit ''Please build the project first: cargo build --release'']] \<and>
         invocations (snd (main cfg np env)) =
           [\<lparr>argv = [BINARY_PATH cfg, ''count''], stdin_text = None\<rparr>]"
proof -
  from assms have "\<not> returned_zero (preflight_outcome cfg env)"
    by (auto simp add: preflight_outcome_def)
  then show ?thesis
    by (simp add: main_exit main_printed main_invocations preflight_error_lines_def
        preflight_invocation_def)
qed

theorem preflight_failure_halts_witness:
  "exit_status (fst (main demo_cfg demo_np demo_env_no_binary)) = 1 \<and>
   printed (snd (main demo_cfg demo_np demo_env_no_binary)) =
     [[Lit ''============================================================''],
      [Lit ''KVDB Benchmark''],
      [Lit ''============================================================''],
      [Lit ''Number of vectors: '', IntD 2],
      [Lit ''Vector dimension: '', IntD 2],
      [],
      [Lit ''Error: Could not find binary at '', Lit ''./kvdb''],
      [Lit ''Please build the project first: cargo build --release'']] \<and>
   invocations (snd (main demo_cfg demo_np demo_env_no_binary)) =
     [\<lparr>argv = [''./kvdb'', ''count''], stdin_text = None\<rparr>]"
proof -
  have "os_exec demo_env_no_binary 0 [BINARY_PATH demo_cfg, ''count''] None = NotFound"
    by (simp add: demo_env_no_binary_def)
  from preflight_failure_halts [of demo_env_no_binary demo_cfg demo_np, OF disjI1, OF this]
  show ?thesis
    by (simp add: banner_lines_def rule60_def demo_cfg_def eval_nat_numeral)
qed

text \<open>
  C4, as amended. When the phase-1 process returns a non-zero code and its
  output is text, \<open>main\<close> prints \<open>Error during insertion:\<close> followed by the
  captured standard error, ends with exit status 1 and has started only the
  pre-flight and the phase-1 process. When the output of the phase-1 process is
  not text, \<open>communicate\<close> raises \<open>UnicodeDecodeError\<close>: \<open>main\<close> ends with exit
  status 1 all the same and has started no further process, but prints nothing
  after the phase-1 heading, neither an error heading nor the standard error.
  The same holds of phase 2, once phase 1 went through, with the heading
  \<open>Error during search benchmark:\<close>. In all four cases the output is given in
  full and holds no line of the benchmark summary. Conversely a run that
  returns normally had return code 0 and decodable output from both phase
  processes.
\<close>

theorem phase_failure_halts:
  "(returned_zero (preflight_outcome cfg env) \<and>
    phase1_outcome cfg np env = Completed returncode out err \<and> returncode \<noteq> 0
    \<longrightarrow>
      exit_status (fst (main cfg np env)) = 1 \<and>
      printed (snd (main cfg np env)) =
        banner_lines cfg @ generation_lines cfg @
        [[Lit ''Phase 1: Benchmarking insertions...''],
         [Lit ''Error during insertion:''],
         [Captured err]] \<and>
      [Lit ''Benchmark Summary''] \<notin> set (printed (snd (main cfg np env))) \<and>
      invocations (snd (main cfg np env)) =
        [preflight_invocation cfg, phase1_invocation cfg np env]) \<and>
   (returned_zero (preflight_outcome cfg env) \<and>
    phase1_outcome cfg np env = Undecodable returncode
    \<longrightarrow>
      fst (main cfg np env) = Uncaught UnicodeDecodeError \<and>
      exit_status (fst (main cfg np env)) = 1 \<and>
      printed (snd (main cfg np env)) =
        banner_lines cfg @ generation_lines cfg @
        [[Lit ''Phase 1: Benchmarking insertions...'']] \<and>
      [Lit ''Benchmark Summary''] \<notin> set (printed (snd (main cfg np env))) \<and>
      invocations (snd (main cfg np env)) =
        [preflight_invocation cfg, phase1_invocation cfg np env]) \<and>
   (returned_zero (preflight_outcome cfg env) \<and>
    succeeded (phase1_outcome cfg np env) \<and> insert_time_of env \<noteq> 0 \<and>
    phase2_outcome cfg np env = Completed returncode out err \<and> returncode \<noteq> 0
    \<longrightarrow>
      exit_status (fst (main cfg np env)) = 1 \<and>
      printed (snd (main cfg np env)) =
        banner_lines cfg @ generation_lines cfg @
        [[Lit ''Phase 1: Benchmarking insertions...'']] @
        phase1_report_lines cfg (insert_time_of env) @ phase2_header_lines @
        [[Lit ''Error during search benchmark:''],
         [Captured err]] \<and>
      [Lit ''Benchmark Summary''] \<notin> set (printed (snd (main cfg np env))) \<and>
      invocations (snd (main cfg np env)) =
        [preflight_invocation cfg, phase1_invocation cfg np env, phase2_invocation cfg np env]) \<and>
   (returned_zero (preflight_outcome cfg env) \<and>
    succeeded (phase1_outcome cfg np env) \<and> insert_time_of env \<noteq> 0 \<and>
    phase2_outcome cfg np env = Undecodable returncode
    \<longrightarrow>
      fst (main cfg np env) = Uncaught UnicodeDecodeError \<and>
      exit_status (fst (main cfg np env)) = 1 \<and>
      printed (snd (main cfg np env)) =
        banner_lines cfg @ generation_lines cfg @
        [[Lit ''Phase 1: Benchmarking insertions...'']] @
        phase1_report_lines cfg (insert_time_of env) @ phase2_header_lines \<and>
      [Lit ''Benchmark Summary''] \<notin> set (printed (snd (main cfg np env))) \<and>
      invocations (snd (main cfg np env)) =
        [preflight_invocation cfg, phase1_invocation cfg np env, phase2_invocation cfg np env]) \<and>
   (fst (main cfg np env) = Returned
    \<longrightarrow>
      (\<exists>out1 err1. phase1_outcome cfg np env = Completed 0 out1 err1) \<and>
      (\<exists>out2 err2. phase2_outcome cfg np env = Completed 0 out2 err2))"
proof (intro conjI impI)
  assume a: "returned_zero (preflight_outcome cfg env) \<and>
    phase1_outcome cfg np env = Completed returncode out err \<and> returncode \<noteq> 0"
  then show "exit_status (fst (main cfg np env)) = 1"
    by (simp add: main_exit)
  from a show p: "printed (snd (main cfg np env)) =
        banner_lines cfg @ generation_lines cfg @
        [[Lit ''Phase 1: Benchmarking insertions...''],
         [Lit ''Error during insertion:''],
         [Captured err]]"
    by (simp add: main_printed)
  show "[Lit ''Benchmark Summary''] \<notin> set (printed (snd (main cfg np env)))"
    using summary_heading_not_in_phase1_prefix [of cfg] by (simp add: p)
  from a show "invocations (snd (main cfg np env)) =
        [preflight_invocation cfg, phase1_invocation cfg np env]"
    by (simp add: main_invocations)
next
  assume a: "returned_zero (preflight_outcome cfg env) \<and>
    phase1_outcome cfg np env = Undecodable returncode"
  then show e: "fst (main cfg np env) = Uncaught UnicodeDecodeError"
    by (simp add: main_exit)
  show "exit_status (fst (main cfg np env)) = 1"
    by (simp add: e)
  from a show p: "printed (snd (main cfg np env)) =
        banner_lines cfg @ generation_lines cfg @
        [[Lit ''Phase 1: Benchmarking insertions...'']]"
    by (simp add: main_printed)
  show "[Lit ''Benchmark Summary''] \<notin> set (printed (snd (main cfg np env)))"
    using summary_heading_not_in_phase1_prefix [of cfg] by (simp add: p)
  from a show "invocations (snd (main cfg np env)) =
        [preflight_invocation cfg, phase1_invocation cfg np env]"
    by (simp add: main_invocations)
next
  assume a: "returned_zero (preflight_outcome cfg env) \<and>
    succeeded (phase1_outcome cfg np env) \<and> insert_time_of env \<noteq> 0 \<and>
    phase2_outcome cfg np env = Completed returncode out err \<and> returncode \<noteq> 0"
  then have n1: "phase1_outcome cfg np env \<noteq> NotFound \<and> \<not> undecodable (phase1_outcome cfg np env)"
    by (simp add: succeeded_decoded)
  from a n1 show "exit_status (fst (main cfg np env)) = 1"
    by (simp add: main_exit)
  from a n1 show p: "printed (snd (main cfg np env)) =
        banner_lines cfg @ generation_lines cfg @
        [[Lit ''Phase 1: Benchmarking insertions...'']] @
        phase1_report_lines cfg (insert_time_of env) @ phase2_header_lines @
        [[Lit ''Error during search benchmark:''],
         [Captured err]]"
    by (simp add: main_printed)
  show "[Lit ''Benchmark Summary''] \<notin> set (printed (snd (main cfg np env)))"
    using summary_heading_not_in_phase1_prefix [of cfg]
      summary_heading_not_in_phase2_prefix [of cfg "insert_time_of env"] by (simp add: p)
  from a show "invocations (snd (main cfg np env)) =
        [preflight_invocation cfg, phase1_invocation cfg np env, phase2_invocation cfg np env]"
    by (simp add: main_invocations)
next
  assume a: "returned_zero (preflight_outcome cfg env) \<and>
    succeeded (phase1_outcome cfg np env) \<and> insert_time_of env \<noteq> 0 \<and>
    phase2_outcome cfg np env = Undecodable returncode"
  then have n1: "phase1_outcome cfg np env \<noteq> NotFound \<and> \<not> undecodable (phase1_outcome cfg np env)"
    by (simp add: succeeded_decoded)
  from a n1 show e: "fst (main cfg np env) = Uncaught UnicodeDecodeError"
    by (simp add: main_exit)
  show "exit_status (fst (main cfg np env)) = 1"
    by (simp add: e)
  from a n1 show p: "printed (snd (main cfg np env)) =
        banner_lines cfg @ generation_lines cfg @
        [[Lit ''Phase 1: Benchmarking insertions...'']] @
        phase1_report_lines cfg (insert_time_of env) @ phase2_header_lines"
    by (simp add: main_printed)
  show "[Lit ''Benchmark Summary''] \<notin> set (printed (snd (main cfg np env)))"
    using summary_heading_not_in_phase1_prefix [of cfg]
      summary_heading_not_in_phase2_prefix [of cfg "insert_time_of env"] by (simp add: p)
  from a show "invocations (snd (main cfg np env)) =
        [preflight_invocation cfg, phase1_invocation cfg np env, phase2_invocation cfg np env]"
    by (simp add: main_invocations)
next
  assume r: "fst (main cfg np env) = Returned"
  then have "succeeded (phase1_outcome cfg np env)"
    by (simp add: main_exit split: if_splits)
  then show "\<exists>out1 err1. phase1_outcome cfg np env = Completed 0 out1 err1"
    by (cases "phase1_outcome cfg np env") simp_all
  from r have "succeeded (phase2_outcome cfg np env)"
    by (simp add: main_exit split: if_splits)
  then show "\<exists>out2 err2. phase2_outcome cfg np env = Completed 0 out2 err2"
    by (cases "phase2_outcome cfg np env") simp_all
qed

theorem phase_failure_halts_witness:
  "exit_status (fst (main demo_cfg demo_np demo_env_phase1_fails)) = 1 \<and>
   last (printed (snd (main demo_cfg demo_np demo_env_phase1_fails))) =
     [Captured ''dimension mismatch''] \<and>
   length (invocations (snd (main demo_cfg demo_np demo_env_phase1_fails))) = 2 \<and>
   exit_status (fst (main demo_cfg demo_np demo_env_phase1_undecodable)) = 1 \<and>
   last (printed (snd (main demo_cfg demo_np demo_env_phase1_undecodable))) =
     [Lit ''Phase 1: Benchmarking insertions...''] \<and>
   length (invocations (snd (main demo_cfg demo_np demo_env_phase1_undecodable))) = 2 \<and>
   exit_status (fst (main demo_cfg demo_np demo_env_phase2_fails)) = 1 \<and>
   last (printed (snd (main demo_cfg demo_np demo_env_phase2_fails))) =
     [Captured ''index is empty''] \<and>
   length (invocations (snd (main demo_cfg demo_np demo_env_phase2_fails))) = 3 \<and>
   exit_status (fst (main demo_cfg demo_np demo_env_phase2_undecodable)) = 1 \<and>
   last (printed (snd (main demo_cfg demo_np demo_env_phase2_undecodable))) =
     [Lit ''  Generating query vectors...''] \<and>
   length (invocations (snd (main demo_cfg demo_np demo_env_phase2_undecodable))) = 3 \<and>
   fst (main demo_cfg demo_np demo_env) = Returned \<and>
   phase1_outcome demo_cfg demo_np demo_env = Completed 0 [] [] \<and>
   phase2_outcome demo_cfg demo_np demo_env = Completed 0 [] []"
proof -
  have h1: "returned_zero (preflight_outcome demo_cfg demo_env_phase1_fails) \<and>
      phase1_outcome demo_cfg demo_np demo_env_phase1_fails = Completed 2 [] ''dimension mismatch'' \<and>
      (2::int) \<noteq> 0"
    by (simp add: demo_outcomes)
  have h1u: "returned_zero (preflight_outcome demo_cfg demo_env_phase1_undecodable) \<and>
      phase1_outcome demo_cfg demo_np demo_env_phase1_undecodable = Undecodable 2"
    by (simp add: demo_outcomes)
  have h2: "returned_zero (preflight_outcome demo_cfg demo_env_phase2_fails) \<and>
      succeeded (phase1_outcome demo_cfg demo_np demo_env_phase2_fails) \<and>
      insert_time_of demo_env_phase2_fails \<noteq> 0 \<and>
      phase2_outcome demo_cfg demo_np demo_env_phase2_fails = Completed 2 [] ''index is empty'' \<and>
      (2::int) \<noteq> 0"
    by (simp add: demo_outcomes demo_times)
  have h2u: "returned_zero (preflight_outcome demo_cfg demo_env_phase2_undecodable) \<and>
      succeeded (phase1_outcome demo_cfg demo_np demo_env_phase2_undecodable) \<and>
      insert_time_of demo_env_phase2_undecodable \<noteq> 0 \<and>
      phase2_outcome demo_cfg demo_np demo_env_phase2_undecodable = Undecodable 2"
    by (simp add: demo_outcomes demo_times)
  have a: "exit_status (fst (main demo_cfg demo_np demo_env_phase1_fails)) = 1 \<and>
      last (printed (snd (main demo_cfg demo_np demo_env_phase1_fails))) =
        [Captured ''dimension mismatch''] \<and>
      length (invocations (snd (main demo_cfg demo_np demo_env_phase1_fails))) = 2"
    using phase_failure_halts [of demo_cfg demo_env_phase1_fails demo_np 2 "[]"
        "''dimension mismatch''"] h1
    by simp
  have au: "exit_status (fst (main demo_cfg demo_np demo_env_phase1_undecodable)) = 1 \<and>
      last (printed (snd (main demo_cfg demo_np demo_env_phase1_undecodable))) =
        [Lit ''Phase 1: Benchmarking insertions...''] \<and>
      length (invocations (snd (main demo_cfg demo_np demo_env_phase1_undecodable))) = 2"
    using phase_failure_halts [of demo_cfg demo_env_phase1_undecodable demo_np 2 "[]" "[]"] h1u
    by simp
  have b: "exit_status (fst (main demo_cfg demo_np demo_env_phase2_fails)) = 1 \<and>
      last (printed (snd (main demo_cfg demo_np demo_env_phase2_fails))) =
        [Captured ''index is empty''] \<and>
      length (invocations (snd (main demo_cfg demo_np demo_env_phase2_fails))) = 3"
    using phase_failure_halts [of demo_cfg demo_env_phase2_fails demo_np 2 "[]"
        "''index is empty''"] h2
    by simp
  have bu: "exit_status (fst (main demo_cfg demo_np demo_env_phase2_undecodable)) = 1 \<and>
      last (printed (snd (main demo_cfg demo_np demo_env_phase2_undecodable))) =
        [Lit ''  Generating query vectors...''] \<and>
      length (invocations (snd (main demo_cfg demo_np demo_env_phase2_undecodable))) = 3"
    using phase_failure_halts [of demo_cfg demo_env_phase2_undecodable demo_np 2 "[]" "[]"] h2u
    by (simp add: phase2_header_lines_def)
  have c: "fst (main demo_cfg demo_np demo_env) = Returned \<and>
      phase1_outcome demo_cfg demo_np demo_env = Completed 0 [] [] \<and>
      phase2_outcome demo_cfg demo_np demo_env = Completed 0 [] []"
    using phase_failure_halts [of demo_cfg demo_env demo_np 0 "[]" "[]"] demo_returns
    by (simp add: demo_outcomes)
  from a au b bu c show ?thesis by blast
qed

theorem phase_failure_undecodable_counterexample:
  "phase1_outcome demo_cfg demo_np demo_env_phase1_undecodable = Undecodable 2 \<and>
   fst (main demo_cfg demo_np demo_env_phase1_undecodable) = Uncaught UnicodeDecodeError \<and>
   printed (snd (main demo_cfg demo_np demo_env_phase1_undecodable)) =
     [[Lit ''============================================================''],
      [Lit ''KVDB Benchmark''],
      [Lit ''============================================================''],
      [Lit ''Number of vectors: '', IntD 2],
      [Lit ''Vector dimension: '', IntD 2],
      [],
      [Lit ''Generating random vectors...''],
      [Lit ''Generated '', IntD 2, Lit '' random vectors''],
      [],
      [Lit ''Phase 1: Benchmarking insertions...'']]"
  by (simp add: main_exit main_printed demo_outcomes)
     (simp add: banner_lines_def generation_lines_def rule60_def demo_cfg_def eval_nat_numeral)

subsection \<open>Derived metrics and the summary\<close>

text \<open>
  C1. Lines 116-117 compute \<open>search_time = total_time - insert_time\<close> and
  \<open>avg_search_time = search_time / 100\<close> for every pair of times; for
  \<open>insert_time = 2\<close> and \<open>total_time = 5\<close> this is \<open>search_time = 3\<close> and
  \<open>avg_search_time = 3/100\<close>, that is 30 when multiplied by 1000 for the
  millisecond figure. In every run that gets past both phases (pre-flight and
  both phase processes succeeded, and the two phase-1 clock readings differ, so
  that line 80 does not divide by zero) these are the figures \<open>main\<close> prints on
  lines 119 and 120, computed from the elapsed times of the two phases. Times
  are real numbers here, so the rounding of Python's floats is not part of the
  statement.
\<close>

theorem derived_metrics_computed:
  "derived_metrics insert_time total_time =
     (total_time - insert_time, (total_time - insert_time) / 100) \<and>
   derived_metrics 2 5 = (3, 3 / 100) \<and>
   snd (derived_metrics 2 5) * 1000 = 30 \<and>
   (returned_zero (preflight_outcome cfg env) \<and> succeeded (phase1_outcome cfg np env) \<and>
    insert_time_of env \<noteq> 0 \<and> succeeded (phase2_outcome cfg np env)
    \<longrightarrow>
      [Lit ''  Completed 100 searches in '',
       Fixed 3 (total_time_of env - insert_time_of env), Lit '' seconds'']
        \<in> set (printed (snd (main cfg np env))) \<and>
      [Lit ''  Average search time: '',
       Fixed 3 ((total_time_of env - insert_time_of env) / 100 * 1000), Lit '' ms'']
        \<in> set (printed (snd (main cfg np env))))"
proof (intro conjI impI)
  show "derived_metrics insert_time total_time =
     (total_time - insert_time, (total_time - insert_time) / 100)"
    by (simp add: derived_metrics_def Let_def)
  show "derived_metrics 2 5 = (3, 3 / 100)"
    by (simp add: derived_metrics_def Let_def)
  show "snd (derived_metrics 2 5) * 1000 = 30"
    by (simp add: derived_metrics_def Let_def)
next
  assume a: "returned_zero (preflight_outcome cfg env) \<and> succeeded (phase1_outcome cfg np env) \<and>
    insert_time_of env \<noteq> 0 \<and> succeeded (phase2_outcome cfg np env)"
  then obtain pre post where p: "printed (snd (main cfg np env)) =
      pre @ take 2 (search_report_lines (insert_time_of env) (total_time_of env)) @ post"
    using reaches_metrics_printed by blast
  show "[Lit ''  Completed 100 searches in '',
       Fixed 3 (total_time_of env - insert_time_of env), Lit '' seconds'']
        \<in> set (printed (snd (main cfg np env)))"
    by (simp add: p search_report_lines_def)
  show "[Lit ''  Average search time: '',
       Fixed 3 ((total_time_of env - insert_time_of env) / 100 * 1000), Lit '' ms'']
        \<in> set (printed (snd (main cfg np env)))"
    by (simp add: p search_report_lines_def)
qed

theorem derived_metrics_computed_witness:
  "insert_time_of demo_env = 2 \<and> total_time_of demo_env = 5 \<and>
   [Lit ''  Completed 100 searches in '', Fixed 3 3, Lit '' seconds'']
     \<in> set (printed (snd (main demo_cfg demo_np demo_env))) \<and>
   [Lit ''  Average search time: '', Fixed 3 30, Lit '' ms'']
     \<in> set (printed (snd (main demo_cfg demo_np demo_env)))"
proof -
  have h: "returned_zero (preflight_outcome demo_cfg demo_env) \<and>
      succeeded (phase1_outcome demo_cfg demo_np demo_env) \<and>
      insert_time_of demo_env \<noteq> 0 \<and> succeeded (phase2_outcome demo_cfg demo_np demo_env)"
    by (simp add: demo_outcomes demo_times)
  from derived_metrics_computed [of 2 5 demo_cfg demo_env demo_np] h
  show ?thesis by (simp add: demo_times)
qed

text \<open>
  C5, as amended. In every run that returns normally, the last line but one of
  the output is \<open>Total benchmark time:\<close> followed by \<open>total_time\<close>, the elapsed
  wall time of phase 2 alone (the difference of the third and fourth clock
  readings), and the last line is the closing rule. That figure is the sum of
  \<open>insert_time\<close> and the derived \<open>search_time\<close>; the elapsed time of phase 1 is
  not added to it. The concrete run below shows that the sum of the two
  phases' elapsed times (2 + 5) is not what is printed.
\<close>

theorem total_benchmark_time_is_phase2_time:
  assumes "fst (main cfg np env) = Returned"
  shows "last (printed (snd (main cfg np env))) = rule60 \<and>
         last (butlast (printed (snd (main cfg np env)))) =
           [Lit ''Total benchmark time: '', Fixed 3 (total_time_of env), Lit '' seconds''] \<and>
         total_time_of env =
           shd (stl (stl (stl (clock_readings env)))) - shd (stl (stl (clock_readings env))) \<and>
         total_time_of env =
           insert_time_of env + fst (derived_metrics (insert_time_of env) (total_time_of env))"
proof -
  have "printed (snd (main cfg np env)) =
      (banner_lines cfg @ generation_lines cfg @
       [[Lit ''Phase 1: Benchmarking insertions...'']] @
       phase1_report_lines cfg (insert_time_of env) @ phase2_header_lines @
       search_report_lines (insert_time_of env) (total_time_of env) @
       take 16 (summary_lines cfg (insert_time_of env) (total_time_of env))) @
      [[Lit ''Total benchmark time: '', Fixed 3 (total_time_of env), Lit '' seconds''], rule60]"
    using returned_printed [OF assms]
      summary_lines_tail [of cfg "insert_time_of env" "total_time_of env"]
    by (simp del: append_take_drop_id)
  then obtain pre where p: "printed (snd (main cfg np env)) =
      pre @ [[Lit ''Total benchmark time: '', Fixed 3 (total_time_of env), Lit '' seconds''], rule60]"
    by blast
  have "last (printed (snd (main cfg np env))) = rule60"
    by (simp add: p)
  moreover have "last (butlast (printed (snd (main cfg np env)))) =
      [Lit ''Total benchmark time: '', Fixed 3 (total_time_of env), Lit '' seconds'']"
    by (simp add: p butlast_append)
  ultimately show ?thesis
    by (simp add: derived_metrics_def Let_def total_time_of_def)
qed

theorem total_benchmark_time_is_phase2_time_witness:
  "fst (main demo_cfg demo_np demo_env) = Returned \<and>
   last (butlast (printed (snd (main demo_cfg demo_np demo_env)))) =
     [Lit ''Total benchmark time: '', Fixed 3 5, Lit '' seconds'']"
  using total_benchmark_time_is_phase2_time [OF demo_returns] demo_returns
  by (simp add: demo_times)

theorem total_benchmark_time_sum_counterexample:
  "fst (main demo_cfg demo_np demo_env) = Returned \<and>
   insert_time_of demo_env = 2 \<and> total_time_of demo_env = 5 \<and>
   [Lit ''Total benchmark time: '', Fixed 3 5, Lit '' seconds'']
     \<in> set (printed (snd (main demo_cfg demo_np demo_env))) \<and>
   [Lit ''Total benchmark time: '',
    Fixed 3 (insert_time_of demo_env + total_time_of demo_env), Lit '' seconds'']
     \<notin> set (printed (snd (main demo_cfg demo_np demo_env)))"
  using demo_returns
  by (simp add: returned_printed [OF demo_returns] demo_times banner_lines_def
      generation_lines_def phase1_report_lines_def phase2_header_lines_def
      search_report_lines_def summary_lines_def rule60_def)

end
